theory Spec2Isabelle
  imports Complex_Main
begin

section \<open>Numbers and vectors\<close>

text \<open>
  The controller is TypeScript on top of the three.js vector library. A JavaScript
  number is modelled as a \<^typ>\<open>real\<close>: every arithmetic operation is the exact one, and
  \<open>Math.sqrt\<close>, \<open>Math.sin\<close>, \<open>Math.cos\<close> are \<^const>\<open>sqrt\<close>, \<^const>\<open>sin\<close>, \<^const>\<open>cos\<close>. Rounding,
  signed zeros, infinities and NaN are outside the model.

  The functions of this section are the three.js operations that \<open>Unit.ts\<close> and
  \<open>GameCanvas.tsx\<close> call, written after the library's own bodies; each is named as the
  method it stands for. In three.js they mutate their receiver; here they return the
  new value.
\<close>

datatype Vector3 = Vector3 (vec_x: real) (vec_y: real) (vec_z: real)

definition zero3 :: Vector3 where
  "zero3 = Vector3 0 0 0"

text \<open>\<open>Vector2(a, b).length()\<close>\<close>

definition length2 :: "real \<Rightarrow> real \<Rightarrow> real" where
  "length2 a b = sqrt (a * a + b * b)"

text \<open>\<open>v.add(w)\<close>, \<open>v.sub(w)\<close>, \<open>v.multiplyScalar(s)\<close>, \<open>v.addScaledVector(w, s)\<close>, \<open>v.dot(w)\<close>\<close>

definition add3 :: "Vector3 \<Rightarrow> Vector3 \<Rightarrow> Vector3" where
  "add3 v w = Vector3 (vec_x v + vec_x w) (vec_y v + vec_y w) (vec_z v + vec_z w)"

definition sub3 :: "Vector3 \<Rightarrow> Vector3 \<Rightarrow> Vector3" where
  "sub3 v w = Vector3 (vec_x v - vec_x w) (vec_y v - vec_y w) (vec_z v - vec_z w)"

definition multiplyScalar :: "Vector3 \<Rightarrow> real \<Rightarrow> Vector3" where
  "multiplyScalar v s = Vector3 (vec_x v * s) (vec_y v * s) (vec_z v * s)"

definition addScaledVector :: "Vector3 \<Rightarrow> Vector3 \<Rightarrow> real \<Rightarrow> Vector3" where
  "addScaledVector v w s =
     Vector3 (vec_x v + vec_x w * s) (vec_y v + vec_y w * s) (vec_z v + vec_z w * s)"

definition dot3 :: "Vector3 \<Rightarrow> Vector3 \<Rightarrow> real" where
  "dot3 v w = vec_x v * vec_x w + vec_y v * vec_y w + vec_z v * vec_z w"

text \<open>\<open>v.lengthSq()\<close>, \<open>v.length()\<close>\<close>

definition lengthSq :: "Vector3 \<Rightarrow> real" where
  "lengthSq v = vec_x v * vec_x v + vec_y v * vec_y v + vec_z v * vec_z v"

definition length3 :: "Vector3 \<Rightarrow> real" where
  "length3 v = sqrt (lengthSq v)"

text \<open>
  \<open>v.normalize()\<close> is \<open>this.divideScalar(this.length() || 1)\<close>, and
  \<open>divideScalar(s)\<close> is \<open>multiplyScalar(1 / s)\<close>: the zero vector, whose length is
  falsy, is divided by 1 and stays the zero vector.
\<close>

definition normalize :: "Vector3 \<Rightarrow> Vector3" where
  "normalize v = multiplyScalar v (1 / (if length3 v = 0 then 1 else length3 v))"

text \<open>\<open>v.distanceToSquared(w)\<close>, \<open>v.distanceTo(w)\<close>\<close>

definition distanceToSquared :: "Vector3 \<Rightarrow> Vector3 \<Rightarrow> real" where
  "distanceToSquared v w =
     (vec_x v - vec_x w) * (vec_x v - vec_x w) + (vec_y v - vec_y w) * (vec_y v - vec_y w)
       + (vec_z v - vec_z w) * (vec_z v - vec_z w)"

definition distanceTo :: "Vector3 \<Rightarrow> Vector3 \<Rightarrow> real" where
  "distanceTo v w = sqrt (distanceToSquared v w)"

text \<open>
  \<open>v.projectOnVector(w)\<close>: the zero vector when \<open>w.lengthSq()\<close> is 0, else \<open>w\<close> scaled by
  \<open>w.dot(v) / w.lengthSq()\<close>. \<open>v.projectOnPlane(n)\<close> subtracts from \<open>v\<close> its projection
  on \<open>n\<close>.
\<close>

definition projectOnVector :: "Vector3 \<Rightarrow> Vector3 \<Rightarrow> Vector3" where
  "projectOnVector v w =
     (if lengthSq w = 0 then zero3 else multiplyScalar w (dot3 w v / lengthSq w))"

definition projectOnPlane :: "Vector3 \<Rightarrow> Vector3 \<Rightarrow> Vector3" where
  "projectOnPlane v n = sub3 v (projectOnVector v n)"

text \<open>\<open>MathUtils.lerp(a, b, t)\<close> and \<open>MathUtils.clamp(v, lo, hi)\<close>\<close>

definition lerp :: "real \<Rightarrow> real \<Rightarrow> real \<Rightarrow> real" where
  "lerp a b t = (1 - t) * a + t * b"

definition clamp :: "real \<Rightarrow> real \<Rightarrow> real \<Rightarrow> real" where
  "clamp v lo hi = max lo (min hi v)"

text \<open>
  \<open>Math.atan2(y, x)\<close>: the angle of the point \<open>(x, y)\<close>, in \<open>[-\<pi>, \<pi>]\<close>. (With signed
  zeros left out it never returns \<open>-\<pi>\<close>.)
\<close>

definition atan2 :: "real \<Rightarrow> real \<Rightarrow> real" where
  "atan2 b a =
     (if 0 < a then arctan (b / a)
      else if a < 0 \<and> 0 \<le> b then arctan (b / a) + pi
      else if a < 0 then arctan (b / a) - pi
      else if 0 < b then pi / 2
      else if b < 0 then - (pi / 2)
      else 0)"

text \<open>
  A \<open>Box3\<close> holds its two corners. \<open>box.clampPoint(p, target)\<close> clamps each coordinate
  of \<open>p\<close> between the corners; \<open>box.intersectsSphere(Sphere(c, r))\<close> compares the squared
  distance from \<open>c\<close> to its clamped point with \<open>r * r\<close>.
\<close>

record Box3 =
  box_min :: Vector3
  box_max :: Vector3

definition clampPoint :: "Box3 \<Rightarrow> Vector3 \<Rightarrow> Vector3" where
  "clampPoint b p =
     Vector3 (clamp (vec_x p) (vec_x (box_min b)) (vec_x (box_max b)))
             (clamp (vec_y p) (vec_y (box_min b)) (vec_y (box_max b)))
             (clamp (vec_z p) (vec_z (box_min b)) (vec_z (box_max b)))"

definition intersectsSphere :: "Box3 \<Rightarrow> Vector3 \<Rightarrow> real \<Rightarrow> bool" where
  "intersectsSphere b c r = (distanceToSquared (clampPoint b c) c \<le> r * r)"


text \<open>\<open>box.containsPoint(p)\<close>: \<open>p\<close> is on or inside the box. \<open>box.isEmpty()\<close>: a corner
  pair that encloses nothing.\<close>

definition containsPoint :: "Box3 \<Rightarrow> Vector3 \<Rightarrow> bool" where
  "containsPoint b p =
     (vec_x (box_min b) \<le> vec_x p \<and> vec_x p \<le> vec_x (box_max b)
      \<and> vec_y (box_min b) \<le> vec_y p \<and> vec_y p \<le> vec_y (box_max b)
      \<and> vec_z (box_min b) \<le> vec_z p \<and> vec_z p \<le> vec_z (box_max b))"

definition isEmpty :: "Box3 \<Rightarrow> bool" where
  "isEmpty b =
     (vec_x (box_max b) < vec_x (box_min b) \<or> vec_y (box_max b) < vec_y (box_min b)
      \<or> vec_z (box_max b) < vec_z (box_min b))"


section \<open>The unit\<close>

text \<open>
  \<open>class Unit\<close> of \<open>src/entities/Unit.ts\<close>. \<open>position\<close> and \<open>rotation_y\<close> are
  \<open>group.position\<close> and \<open>group.rotation.y\<close>; \<open>mixer\<close> says whether \<open>this.mixer\<close> is
  set (it is set by \<open>load\<close>, and by nothing else); \<open>actions\<close> is the set of the clip
  names that are keys of the \<open>actions\<close> table; \<open>capsule_start\<close> and \<open>capsule_end\<close> are
  \<open>capsule.start\<close> and \<open>capsule.end\<close>. The fields \<open>radius = 0.5\<close> and \<open>height = 1.6\<close>
  are initialised by the class and assigned nowhere: they are constants here. The
  animation objects themselves (what \<open>mixer.update\<close>, \<open>fadeIn\<close>, \<open>fadeOut\<close>, \<open>play\<close> do
  to the clips) belong to three.js and are not part of the state.
\<close>

definition radius :: real where
  "radius = 0.5"

definition height :: real where
  "height = 1.6"

record Unit =
  position :: Vector3
  rotation_y :: real
  mixer :: bool
  actions :: "string set"
  currentAction :: string
  velocity :: Vector3
  isGrounded :: bool
  capsule_start :: Vector3
  capsule_end :: Vector3

text \<open>
  \<open>ControlState\<close> of the types file and the joystick object of \<open>useControls\<close>, whose
  fields \<open>x\<close> and \<open>y\<close> are \<open>joy_x\<close> and \<open>joy_y\<close> here.
\<close>

record ControlState =
  forward :: bool
  backward :: bool
  left :: bool
  right :: bool
  jump :: bool
  run :: bool
  resetCamera :: bool

record JoystickData =
  joy_x :: real
  joy_y :: real
  active :: bool

text \<open>The constructor: the group at the spawn position, the capsule at the origin.\<close>

definition newUnit :: "Vector3 \<Rightarrow> Unit" where
  "newUnit spawnPos =
     \<lparr> position = spawnPos, rotation_y = 0, mixer = False, actions = {},
       currentAction = ''Idle'', velocity = zero3, isGrounded = False,
       capsule_start = Vector3 0 radius 0, capsule_end = Vector3 0 (height - radius) 0 \<rparr>"


text \<open>
  What \<open>load\<close> leaves in the unit once the asset has arrived: the mixer is set and
  every clip of the asset is entered in the \<open>actions\<close> table under its name.
\<close>

definition load :: "string list \<Rightarrow> Unit \<Rightarrow> Unit" where
  "load names u = u\<lparr> mixer := True, actions := actions u \<union> set names \<rparr>"

text \<open>The control state and the joystick state that \<open>useControls\<close> starts with.\<close>

definition initialControls :: ControlState where
  "initialControls =
     \<lparr> forward = False, backward = False, left = False, right = False,
       jump = False, run = False, resetCamera = False \<rparr>"

definition initialJoystick :: JoystickData where
  "initialJoystick = \<lparr> joy_x = 0, joy_y = 0, active = False \<rparr>"

section \<open>The locomotion integrator: \<open>Unit.update\<close>\<close>

text \<open>Step 1 of \<open>update\<close>: the move intent from the keys, overridden by an active joystick.\<close>

definition moveX :: "ControlState \<Rightarrow> JoystickData \<Rightarrow> real" where
  "moveX controls joystick =
     (if active joystick then joy_x joystick
      else (0 - (if left controls then 1 else 0)) + (if right controls then 1 else 0))"

definition moveZ :: "ControlState \<Rightarrow> JoystickData \<Rightarrow> real" where
  "moveZ controls joystick =
     (if active joystick then - joy_y joystick
      else (0 + (if forward controls then 1 else 0)) - (if backward controls then 1 else 0))"

definition inputMag :: "ControlState \<Rightarrow> JoystickData \<Rightarrow> real" where
  "inputMag controls joystick = min (length2 (moveX controls joystick) (moveZ controls joystick)) 1"

text \<open>
  The vector that line 89 hands to \<open>normalize\<close>: the camera's forward vector scaled by
  \<open>moveZ\<close> plus its right vector scaled by \<open>moveX\<close>; and the normalised move direction.
\<close>

definition moveDirRaw :: "real \<Rightarrow> real \<Rightarrow> real \<Rightarrow> Vector3" where
  "moveDirRaw cameraTheta mx mz =
     addScaledVector
       (addScaledVector zero3 (Vector3 (- sin cameraTheta) 0 (- cos cameraTheta)) mz)
       (Vector3 (cos cameraTheta) 0 (- sin cameraTheta)) mx"

definition moveDir :: "real \<Rightarrow> real \<Rightarrow> real \<Rightarrow> Vector3" where
  "moveDir cameraTheta mx mz = normalize (moveDirRaw cameraTheta mx mz)"

text \<open>Line 91: the yaw that the move direction points to.\<close>

abbreviation targetYaw :: "real \<Rightarrow> ControlState \<Rightarrow> JoystickData \<Rightarrow> real" where
  "targetYaw cameraTheta controls joystick \<equiv>
     atan2 (vec_x (moveDir cameraTheta (moveX controls joystick) (moveZ controls joystick)))
           (vec_z (moveDir cameraTheta (moveX controls joystick) (moveZ controls joystick)))"

text \<open>
  Lines 93 and 94: the two loops that bring the yaw difference back between \<open>-\<pi>\<close> and
  \<open>\<pi>\<close>, one turn at a time.
\<close>

function wrapUp :: "real \<Rightarrow> real" where
  "wrapUp d = (if d < - pi then wrapUp (d + pi * 2) else d)"
  by pat_completeness auto
termination
proof (relation "measure (\<lambda>d. nat \<lceil>(- pi - d) / (pi * 2)\<rceil>)")
  show "wf (measure (\<lambda>d. nat \<lceil>(- pi - d) / (pi * 2)\<rceil>))"
    by simp
next
  fix d :: real
  assume lt: "d < - pi"
  have step: "(- pi - (d + pi * 2)) / (pi * 2) = (- pi - d) / (pi * 2) - 1"
    by (simp add: field_simps)
  have pos: "0 < (- pi - d) / (pi * 2)"
    using lt by simp
  then have "0 < \<lceil>(- pi - d) / (pi * 2)\<rceil>"
    by linarith
  then have "nat \<lceil>(- pi - d) / (pi * 2) - 1\<rceil> < nat \<lceil>(- pi - d) / (pi * 2)\<rceil>"
    by simp
  then have "nat \<lceil>(- pi - (d + pi * 2)) / (pi * 2)\<rceil> < nat \<lceil>(- pi - d) / (pi * 2)\<rceil>"
    unfolding step .
  then show "(d + pi * 2, d) \<in> measure (\<lambda>d. nat \<lceil>(- pi - d) / (pi * 2)\<rceil>)"
    by (simp only: in_measure)
qed

function wrapDown :: "real \<Rightarrow> real" where
  "wrapDown d = (if pi < d then wrapDown (d - pi * 2) else d)"
  by pat_completeness auto
termination
proof (relation "measure (\<lambda>d. nat \<lceil>(d - pi) / (pi * 2)\<rceil>)")
  show "wf (measure (\<lambda>d. nat \<lceil>(d - pi) / (pi * 2)\<rceil>))"
    by simp
next
  fix d :: real
  assume lt: "pi < d"
  have step: "(d - pi * 2 - pi) / (pi * 2) = (d - pi) / (pi * 2) - 1"
    by (simp add: field_simps)
  have pos: "0 < (d - pi) / (pi * 2)"
    using lt by simp
  then have "0 < \<lceil>(d - pi) / (pi * 2)\<rceil>"
    by linarith
  then have "nat \<lceil>(d - pi) / (pi * 2) - 1\<rceil> < nat \<lceil>(d - pi) / (pi * 2)\<rceil>"
    by simp
  then have "nat \<lceil>(d - pi * 2 - pi) / (pi * 2)\<rceil> < nat \<lceil>(d - pi) / (pi * 2)\<rceil>"
    unfolding step .
  then show "(d - pi * 2, d) \<in> measure (\<lambda>d. nat \<lceil>(d - pi) / (pi * 2)\<rceil>)"
    by (simp only: in_measure)
qed

definition wrapDiff :: "real \<Rightarrow> real" where
  "wrapDiff d = wrapDown (wrapUp d)"

text \<open>Lines 91 to 95: the yaw added to the heading in one tick.\<close>

definition yawDelta :: "real \<Rightarrow> real \<Rightarrow> real" where
  "yawDelta heading targetRot = wrapDiff (targetRot - heading) * 0.15"

text \<open>Lines 126 to 129: the clip the motion state asks for.\<close>

definition nextAnimation :: "bool \<Rightarrow> real \<Rightarrow> string" where
  "nextAnimation grounded velMag =
     (if \<not> grounded then ''Jump''
      else if 7.0 < velMag then ''Running''
      else if 0.5 < velMag then ''Walking''
      else ''Idle'')"

text \<open>\<open>testAnimation || next\<close>: \<open>null\<close>, \<open>undefined\<close> and the empty string are falsy.\<close>

definition activeAction :: "string option \<Rightarrow> string \<Rightarrow> string" where
  "activeAction testAnimation nxt =
     (case testAnimation of None \<Rightarrow> nxt | Some s \<Rightarrow> if s = [] then nxt else s)"

definition horizontalSpeed :: "Unit \<Rightarrow> real" where
  "horizontalSpeed u = length2 (vec_x (velocity u)) (vec_z (velocity u))"

text \<open>
  The body of \<open>update\<close> is four numbered blocks. Block 1, \<open>Handle Movement Input\<close>
  (lines 75 to 102): the heading turns and the horizontal velocity approaches its
  target, or decays inside the deadzone.
\<close>

definition handleMovementInput :: "ControlState \<Rightarrow> JoystickData \<Rightarrow> real \<Rightarrow> Unit \<Rightarrow> Unit" where
  "handleMovementInput controls joystick cameraTheta u =
     (let mx = moveX controls joystick;
          mz = moveZ controls joystick;
          speed = (if run controls then 12.0 else 6.0);
          mag = inputMag controls joystick
      in if 0.05 < mag
         then
           let dir = moveDir cameraTheta mx mz
           in u\<lparr> rotation_y := rotation_y u
                       + yawDelta (rotation_y u) (atan2 (vec_x dir) (vec_z dir)),
                  velocity := Vector3 (lerp (vec_x (velocity u)) (vec_x dir * mag * speed) 0.15)
                                      (vec_y (velocity u))
                                      (lerp (vec_z (velocity u)) (vec_z dir * mag * speed) 0.15) \<rparr>
         else u\<lparr> velocity := Vector3 (lerp (vec_x (velocity u)) 0 0.15)
                                     (vec_y (velocity u))
                                     (lerp (vec_z (velocity u)) 0 0.15) \<rparr>)"

text \<open>Block 2, \<open>Gravity & Jumping\<close> (lines 105 to 114).\<close>

definition gravityAndJumping :: "real \<Rightarrow> ControlState \<Rightarrow> Unit \<Rightarrow> Unit" where
  "gravityAndJumping delta controls u =
     (if isGrounded u
      then (if jump controls
            then u\<lparr> velocity := Vector3 (vec_x (velocity u)) 13.0 (vec_z (velocity u)),
                    isGrounded := False \<rparr>
            else u\<lparr> velocity := Vector3 (vec_x (velocity u)) 0 (vec_z (velocity u)) \<rparr>)
      else u\<lparr> velocity := Vector3 (vec_x (velocity u))
                                  (vec_y (velocity u) - 32.0 * delta)
                                  (vec_z (velocity u)) \<rparr>)"

text \<open>Block 3, \<open>Apply Velocity\<close>, with the capsule sync that follows it (lines 117 to 121).\<close>

definition applyVelocity :: "real \<Rightarrow> Unit \<Rightarrow> Unit" where
  "applyVelocity delta u =
     (let u1 = u\<lparr> position := add3 (position u) (multiplyScalar (velocity u) delta) \<rparr>
      in u1\<lparr> capsule_start := add3 (Vector3 0 radius 0) (position u1),
              capsule_end := add3 (Vector3 0 (height - radius) 0) (position u1) \<rparr>)"

text \<open>Block 4, \<open>Animations\<close> (lines 124 to 136): the clip changes when the wanted one
  differs from the current one and is in the table.\<close>

definition animations :: "string option \<Rightarrow> Unit \<Rightarrow> Unit" where
  "animations testAnimation u =
     (let act = activeAction testAnimation (nextAnimation (isGrounded u) (horizontalSpeed u))
      in if currentAction u \<noteq> act \<and> act \<in> actions u
         then u\<lparr> currentAction := act \<rparr>
         else u)"

text \<open>
  \<open>update(delta, controls, joystick, cameraTheta, testAnimation)\<close>: nothing before the
  mixer is set (line 72), then the four blocks in their order.
\<close>

definition update ::
  "real \<Rightarrow> ControlState \<Rightarrow> JoystickData \<Rightarrow> real \<Rightarrow> string option \<Rightarrow> Unit \<Rightarrow> Unit" where
  "update delta controls joystick cameraTheta testAnimation u =
     (if \<not> mixer u then u
      else animations testAnimation
             (applyVelocity delta
                (gravityAndJumping delta controls
                   (handleMovementInput controls joystick cameraTheta u))))"


section \<open>The collision resolver: \<open>Unit.checkCollisions\<close>\<close>

text \<open>
  An obstacle is its world-space box, the \<open>Box3\<close> that line 153 computes from the mesh.
  The vector that line 161 hands to \<open>normalize\<close> is \<open>position - closestPoint\<close>.
\<close>

definition penetrationVector :: "Vector3 \<Rightarrow> Box3 \<Rightarrow> Vector3" where
  "penetrationVector p box = sub3 p (clampPoint box p)"

text \<open>
  The body of the loop over the obstacles (lines 152 to 166). \<open>normal.multiplyScalar(overlap)\<close>
  scales \<open>normal\<close> in place, so the vector given to \<open>projectOnPlane\<close> on the next line
  is the scaled one.
\<close>

definition collideObstacle :: "Unit \<Rightarrow> Box3 \<Rightarrow> Unit" where
  "collideObstacle u box =
     (if intersectsSphere box (position u) height
      then
        let closestPoint = clampPoint box (position u);
            distance = distanceTo (position u) closestPoint
        in if distance < radius
           then
             let normal = normalize (penetrationVector (position u) box);
                 overlap = radius - distance;
                 scaled = multiplyScalar normal overlap
             in u\<lparr> position := add3 (position u) scaled,
                    velocity := projectOnPlane (velocity u) scaled \<rparr>
           else u
      else u)"

fun collideObstacles :: "Unit \<Rightarrow> Box3 list \<Rightarrow> Unit" where
  "collideObstacles u [] = u"
| "collideObstacles u (box # rest) = collideObstacles (collideObstacle u box) rest"

text \<open>
  Lines 140 to 148: the floor. The second component lists the positions that
  \<open>spawnDustCallback\<close> is called with, in the order of the calls; the callback copies the
  position it is given at once.
\<close>

definition collideFloor :: "Unit \<Rightarrow> Unit \<times> Vector3 list" where
  "collideFloor u =
     (let wasGroundedBefore = isGrounded u;
          u1 = u\<lparr> isGrounded := False \<rparr>
      in if vec_y (position u1) \<le> 0
         then
           let u2 = u1\<lparr> position := Vector3 (vec_x (position u1)) 0 (vec_z (position u1)),
                        isGrounded := True \<rparr>
           in (u2, if \<not> wasGroundedBefore then [position u2] else [])
         else (u1, []))"

text \<open>
  \<open>checkCollisions(obstacles, floor)\<close>; the \<open>floor\<close> mesh is not read by the method. The
  result is the unit after the call and the calls of the dust callback.
\<close>

definition checkCollisions :: "Unit \<Rightarrow> Box3 list \<Rightarrow> Unit \<times> Vector3 list" where
  "checkCollisions u obstacles =
     (collideObstacles (fst (collideFloor u)) obstacles, snd (collideFloor u))"

text \<open>One simulation tick of \<open>animate\<close>: \<open>char.update(...)\<close>, then \<open>char.checkCollisions(...)\<close>.\<close>

definition tick ::
  "real \<Rightarrow> ControlState \<Rightarrow> JoystickData \<Rightarrow> real \<Rightarrow> string option \<Rightarrow> Box3 list \<Rightarrow> Unit \<Rightarrow> Unit" where
  "tick delta controls joystick cameraTheta testAnimation obstacles u =
     fst (checkCollisions (update delta controls joystick cameraTheta testAnimation u) obstacles)"

text \<open>\<open>n\<close> ticks in a row with the same inputs.\<close>

definition simulate ::
  "nat \<Rightarrow> real \<Rightarrow> ControlState \<Rightarrow> JoystickData \<Rightarrow> real \<Rightarrow> string option \<Rightarrow> Box3 list \<Rightarrow> Unit \<Rightarrow> Unit" where
  "simulate n delta controls joystick cameraTheta testAnimation obstacles u =
     ((tick delta controls joystick cameraTheta testAnimation obstacles) ^^ n) u"

text \<open>
  Flat ground for a walk from the origin along \<open>-z\<close>: no obstacle passes the sphere test
  of line 155 anywhere on the first six units of the way.
\<close>

definition flatGround :: "Box3 list \<Rightarrow> bool" where
  "flatGround obstacles =
     (\<forall>box \<in> set obstacles. \<forall>z. - 6 \<le> z \<and> z \<le> 0 \<longrightarrow>
        \<not> intersectsSphere box (Vector3 0 0 z) height)"

text \<open>A position penetrates a box when line 160 holds for it; a resolved unit penetrates
  no obstacle and is not below the floor.\<close>

definition penetrates :: "Vector3 \<Rightarrow> Box3 \<Rightarrow> bool" where
  "penetrates p box = (distanceTo p (clampPoint box p) < radius)"

definition resolved :: "Unit \<Rightarrow> Box3 list \<Rightarrow> bool" where
  "resolved u obstacles =
     (0 \<le> vec_y (position u) \<and> (\<forall>box \<in> set obstacles. \<not> penetrates (position u) box))"


text \<open>
  The obstacles of the scene (\<open>createObstacle\<close> and its three calls in \<open>GameCanvas.tsx\<close>),
  as the world-space boxes of their meshes: a box of the size \<open>sz\<close> standing on the
  floor, centred at \<open>pos\<close> in \<open>x\<close> and \<open>z\<close>.
\<close>

definition createObstacle :: "Vector3 \<Rightarrow> Vector3 \<Rightarrow> Box3" where
  "createObstacle pos sz =
     \<lparr> box_min = Vector3 (vec_x pos - vec_x sz / 2) (vec_y pos + vec_y sz / 2 - vec_y sz / 2)
                         (vec_z pos - vec_z sz / 2),
       box_max = Vector3 (vec_x pos + vec_x sz / 2) (vec_y pos + vec_y sz / 2 + vec_y sz / 2)
                         (vec_z pos + vec_z sz / 2) \<rparr>"

definition sceneObstacles :: "Box3 list" where
  "sceneObstacles =
     [createObstacle (Vector3 10 0 10) (Vector3 4 8 4),
      createObstacle (Vector3 (- 15) 0 5) (Vector3 6 4 6),
      createObstacle (Vector3 5 0 (- 20)) (Vector3 10 2 2)]"

section \<open>The camera orbit of \<open>GameCanvas\<close>\<close>

text \<open>
  The \<open>cameraOrbit\<close>, \<open>isDragging\<close> and \<open>previousMouse\<close> references of
  \<open>src/components/GameCanvas.tsx\<close>, with their initial values (lines 74 to 76).
\<close>

record CameraOrbit =
  theta :: real
  phi :: real
  distance :: real
  targetTheta :: real
  targetPhi :: real

record View =
  cameraOrbit :: CameraOrbit
  isDragging :: bool
  previousMouse :: "real \<times> real"

definition initialView :: View where
  "initialView =
     \<lparr> cameraOrbit = \<lparr> theta = pi, phi = 0.3, distance = 7.0, targetTheta = pi, targetPhi = 0.3 \<rparr>,
       isDragging = False, previousMouse = (0, 0) \<rparr>"

text \<open>The pointer handlers (lines 174 to 183), given \<open>clientX\<close> and \<open>clientY\<close>.\<close>

definition onMouseDown :: "real \<Rightarrow> real \<Rightarrow> View \<Rightarrow> View" where
  "onMouseDown clientX clientY v = v\<lparr> isDragging := True, previousMouse := (clientX, clientY) \<rparr>"

definition onMouseMove :: "real \<Rightarrow> real \<Rightarrow> View \<Rightarrow> View" where
  "onMouseMove clientX clientY v =
     (if \<not> isDragging v then v
      else
        let dx = clientX - fst (previousMouse v);
            dy = clientY - snd (previousMouse v);
            orbit = cameraOrbit v;
            orbit1 = orbit\<lparr> targetTheta := targetTheta orbit - dx * 0.008 \<rparr>;
            orbit2 = orbit1\<lparr> targetPhi := clamp (targetPhi orbit1 + dy * 0.008) (- 0.2) 1.3 \<rparr>
        in v\<lparr> cameraOrbit := orbit2, previousMouse := (clientX, clientY) \<rparr>)"

definition onMouseUp :: "View \<Rightarrow> View" where
  "onMouseUp v = v\<lparr> isDragging := False \<rparr>"

text \<open>
  The camera part of one frame of \<open>animate\<close> (lines 196 to 206). It runs only when a
  character instance is present; \<open>char\<close> is then the heading \<open>char.group.rotation.y\<close>
  read by the recenter.
\<close>

definition animateCamera :: "ControlState \<Rightarrow> real option \<Rightarrow> View \<Rightarrow> View" where
  "animateCamera controls char v =
     (case char of
        None \<Rightarrow> v
      | Some heading \<Rightarrow>
          let orbit = cameraOrbit v;
              orbit1 = (if resetCamera controls
                        then orbit\<lparr> targetTheta := heading + pi, targetPhi := 0.3 \<rparr>
                        else orbit);
              orbit2 = orbit1\<lparr> theta := lerp (theta orbit1) (targetTheta orbit1) 0.1 \<rparr>;
              orbit3 = orbit2\<lparr> phi := lerp (phi orbit2) (targetPhi orbit2) 0.1 \<rparr>
          in v\<lparr> cameraOrbit := orbit3 \<rparr>)"

text \<open>The operations on the camera, and a run of them from the initial view.\<close>

datatype CameraEvent =
  MouseDown real real
| MouseMove real real
| MouseUp
| Frame ControlState "real option"

fun cameraStep :: "View \<Rightarrow> CameraEvent \<Rightarrow> View" where
  "cameraStep v (MouseDown clientX clientY) = onMouseDown clientX clientY v"
| "cameraStep v (MouseMove clientX clientY) = onMouseMove clientX clientY v"
| "cameraStep v MouseUp = onMouseUp v"
| "cameraStep v (Frame controls char) = animateCamera controls char v"

definition cameraRun :: "CameraEvent list \<Rightarrow> View" where
  "cameraRun events = foldl cameraStep initialView events"

definition pitchInRange :: "View \<Rightarrow> bool" where
  "pitchInRange v =
     (- 0.2 \<le> targetPhi (cameraOrbit v) \<and> targetPhi (cameraOrbit v) \<le> 1.3
      \<and> - 0.2 \<le> phi (cameraOrbit v) \<and> phi (cameraOrbit v) \<le> 1.3)"


section \<open>Facts about the vector operations\<close>

lemma distanceToSquared_nonneg: "0 \<le> distanceToSquared v w"
  by (simp add: distanceToSquared_def)

lemma distanceToSquared_commute: "distanceToSquared v w = distanceToSquared w v"
  by (simp add: distanceToSquared_def algebra_simps)

lemma lengthSq_sub3: "lengthSq (sub3 v w) = distanceToSquared v w"
  by (simp add: lengthSq_def sub3_def distanceToSquared_def)

lemma length3_sub3: "length3 (sub3 v w) = distanceTo v w"
  by (simp add: length3_def distanceTo_def lengthSq_sub3)

lemma lengthSq_multiplyScalar: "lengthSq (multiplyScalar v s) = s * s * lengthSq v"
  by (simp add: lengthSq_def multiplyScalar_def algebra_simps)

lemma dot3_self: "dot3 v v = lengthSq v"
  by (simp add: dot3_def lengthSq_def)

lemma dot3_commute: "dot3 v w = dot3 w v"
  by (simp add: dot3_def algebra_simps)

lemma dot3_multiplyScalar_left: "dot3 (multiplyScalar v s) w = s * dot3 v w"
  by (simp add: dot3_def multiplyScalar_def algebra_simps)

lemma dot3_sub3_left: "dot3 (sub3 a b) w = dot3 a w - dot3 b w"
  by (simp add: dot3_def sub3_def algebra_simps)

lemma multiplyScalar_twice: "multiplyScalar (multiplyScalar v s) r = multiplyScalar v (s * r)"
  by (simp add: multiplyScalar_def algebra_simps)

lemma lengthSq_eq_length3_sq: "lengthSq v = length3 v * length3 v"
proof -
  have "0 \<le> lengthSq v" by (simp add: lengthSq_def)
  then show ?thesis by (simp add: length3_def)
qed

lemma normalize_unit:
  assumes "length3 v \<noteq> 0"
  shows "lengthSq (normalize v) = 1"
proof -
  have "lengthSq (normalize v) = (1 / length3 v) * (1 / length3 v) * (length3 v * length3 v)"
    using assms by (simp add: normalize_def lengthSq_multiplyScalar lengthSq_eq_length3_sq [symmetric])
  also have "\<dots> = 1" using assms by simp
  finally show ?thesis .
qed

lemma projectOnPlane_scaled_unit:
  assumes unit: "lengthSq n = 1" and nz: "s \<noteq> 0"
  shows "projectOnPlane v (multiplyScalar n s) = sub3 v (multiplyScalar n (dot3 n v))"
proof -
  have len: "lengthSq (multiplyScalar n s) = s * s"
    using unit by (simp add: lengthSq_multiplyScalar)
  have "s * (s * dot3 n v / (s * s)) = dot3 n v"
    using nz by simp
  then have "multiplyScalar (multiplyScalar n s) (dot3 (multiplyScalar n s) v / (s * s))
           = multiplyScalar n (dot3 n v)"
    by (simp add: multiplyScalar_twice dot3_multiplyScalar_left)
  then show ?thesis
    using nz len by (simp add: projectOnPlane_def projectOnVector_def)
qed

lemma collideFloor_above:
  "0 \<le> vec_y (position u) \<Longrightarrow> position (fst (collideFloor u)) = position u"
  by (cases "position u") (auto simp add: collideFloor_def Let_def)

lemma collideFloor_velocity: "velocity (fst (collideFloor u)) = velocity u"
  by (simp add: collideFloor_def Let_def)

lemma collideObstacle_penetrating:
  assumes near: "intersectsSphere box (position u) height"
    and pen: "distanceTo (position u) (clampPoint box (position u)) < radius"
  shows "collideObstacle u box =
     u\<lparr> position := add3 (position u)
            (multiplyScalar (normalize (penetrationVector (position u) box))
               (radius - distanceTo (position u) (clampPoint box (position u)))),
        velocity := projectOnPlane (velocity u)
            (multiplyScalar (normalize (penetrationVector (position u) box))
               (radius - distanceTo (position u) (clampPoint box (position u)))) \<rparr>"
  using assms by (simp add: collideObstacle_def Let_def)

lemma depth_intersectsSphere:
  assumes "distanceTo p (clampPoint box p) < radius"
  shows "intersectsSphere box p height"
proof -
  have "sqrt (distanceToSquared p (clampPoint box p)) < 1 / 2"
    using assms by (simp add: distanceTo_def radius_def)
  then have "sqrt (distanceToSquared p (clampPoint box p)) < 1"
    by linarith
  then have "distanceToSquared p (clampPoint box p) < 1"
    by simp
  then show ?thesis
    by (simp add: intersectsSphere_def height_def distanceToSquared_commute [of "clampPoint box p" p])
qed


lemma sqrt_4_25: "sqrt (4 / 25) = 2 / 5"
  by (simp add: real_sqrt_divide)

lemma not_penetrates_far:
  assumes "1 \<le> distanceToSquared p (clampPoint box p)"
  shows "\<not> penetrates p box"
proof -
  have "1 \<le> sqrt (distanceToSquared p (clampPoint box p))"
    using assms by simp
  then show ?thesis
    unfolding penetrates_def distanceTo_def radius_def by linarith
qed

lemma length3_penetrationVector:
  "length3 (penetrationVector p box) = distanceTo p (clampPoint box p)"
  by (simp add: penetrationVector_def length3_sub3)

lemma normalize_known_length:
  "length3 v = l \<Longrightarrow> l \<noteq> 0 \<Longrightarrow> normalize v = multiplyScalar v (1 / l)"
  by (simp add: normalize_def)


section \<open>Facts about the blocks of \<open>update\<close>\<close>

lemma handleMovementInput_keeps:
  "position (handleMovementInput controls joystick cameraTheta u) = position u
   \<and> isGrounded (handleMovementInput controls joystick cameraTheta u) = isGrounded u
   \<and> mixer (handleMovementInput controls joystick cameraTheta u) = mixer u
   \<and> actions (handleMovementInput controls joystick cameraTheta u) = actions u
   \<and> currentAction (handleMovementInput controls joystick cameraTheta u) = currentAction u
   \<and> vec_y (velocity (handleMovementInput controls joystick cameraTheta u)) = vec_y (velocity u)"
  by (simp add: handleMovementInput_def Let_def)

lemma gravityAndJumping_keeps:
  "position (gravityAndJumping delta controls u) = position u
   \<and> mixer (gravityAndJumping delta controls u) = mixer u
   \<and> actions (gravityAndJumping delta controls u) = actions u
   \<and> currentAction (gravityAndJumping delta controls u) = currentAction u
   \<and> vec_x (velocity (gravityAndJumping delta controls u)) = vec_x (velocity u)
   \<and> vec_z (velocity (gravityAndJumping delta controls u)) = vec_z (velocity u)"
  by (simp add: gravityAndJumping_def)

lemma gravityAndJumping_grounded:
  assumes "isGrounded u"
  shows "vec_y (velocity (gravityAndJumping delta controls u)) = (if jump controls then 13.0 else 0)
       \<and> isGrounded (gravityAndJumping delta controls u) = (\<not> jump controls)"
  using assms by (simp add: gravityAndJumping_def)

lemma gravityAndJumping_airborne:
  assumes "\<not> isGrounded u"
  shows "vec_y (velocity (gravityAndJumping delta controls u)) = vec_y (velocity u) - 32.0 * delta
       \<and> \<not> isGrounded (gravityAndJumping delta controls u)"
  using assms by (simp add: gravityAndJumping_def)

lemma applyVelocity_keeps:
  "velocity (applyVelocity delta u) = velocity u
   \<and> isGrounded (applyVelocity delta u) = isGrounded u
   \<and> mixer (applyVelocity delta u) = mixer u
   \<and> actions (applyVelocity delta u) = actions u
   \<and> currentAction (applyVelocity delta u) = currentAction u"
  by (simp add: applyVelocity_def Let_def)

lemma applyVelocity_position:
  "position (applyVelocity delta u) = add3 (position u) (multiplyScalar (velocity u) delta)"
  by (simp add: applyVelocity_def Let_def)

lemma applyVelocity_capsule:
  "capsule_start (applyVelocity delta u) = add3 (Vector3 0 radius 0) (position (applyVelocity delta u))
   \<and> capsule_end (applyVelocity delta u)
       = add3 (Vector3 0 (height - radius) 0) (position (applyVelocity delta u))"
  by (simp add: applyVelocity_def Let_def)

lemma animations_keeps:
  "position (animations testAnimation u) = position u
   \<and> velocity (animations testAnimation u) = velocity u
   \<and> isGrounded (animations testAnimation u) = isGrounded u
   \<and> mixer (animations testAnimation u) = mixer u
   \<and> actions (animations testAnimation u) = actions u
   \<and> capsule_start (animations testAnimation u) = capsule_start u
   \<and> capsule_end (animations testAnimation u) = capsule_end u"
  by (simp add: animations_def Let_def)

lemma moveDir_forward: "moveDir 0 0 1 = Vector3 0 0 (- 1)"
  by (simp add: moveDir_def moveDirRaw_def normalize_def length3_def lengthSq_def
      addScaledVector_def zero3_def multiplyScalar_def)

lemma forward_only_intent:
  assumes "forward controls" and "\<not> backward controls" and "\<not> left controls" and "\<not> right controls"
    and "\<not> active joystick"
  shows "moveX controls joystick = 0 \<and> moveZ controls joystick = 1 \<and> inputMag controls joystick = 1"
  using assms by (simp add: moveX_def moveZ_def inputMag_def length2_def)

lemma moveDir_backward: "moveDir 0 0 (- 1) = Vector3 0 0 1"
  by (simp add: moveDir_def moveDirRaw_def normalize_def length3_def lengthSq_def
      addScaledVector_def zero3_def multiplyScalar_def)

lemma backward_only_intent:
  assumes "\<not> forward controls" and "backward controls" and "\<not> left controls" and "\<not> right controls"
    and "\<not> active joystick"
  shows "moveX controls joystick = 0 \<and> moveZ controls joystick = - 1 \<and> inputMag controls joystick = 1"
  using assms by (simp add: moveX_def moveZ_def inputMag_def length2_def)

lemma handleMovementInput_rotation:
  "rotation_y (handleMovementInput controls joystick cameraTheta u)
     = (if 0.05 < inputMag controls joystick
        then rotation_y u + yawDelta (rotation_y u) (targetYaw cameraTheta controls joystick)
        else rotation_y u)"
  by (simp add: handleMovementInput_def Let_def)

lemma later_blocks_keep_rotation:
  "rotation_y (gravityAndJumping delta controls u) = rotation_y u"
  "rotation_y (applyVelocity delta u) = rotation_y u"
  "rotation_y (animations testAnimation u) = rotation_y u"
  by (simp_all add: gravityAndJumping_def applyVelocity_def animations_def Let_def)

lemma update_rotation:
  assumes "mixer u"
  shows "rotation_y (update delta controls joystick cameraTheta testAnimation u)
     = (if 0.05 < inputMag controls joystick
        then rotation_y u + yawDelta (rotation_y u) (targetYaw cameraTheta controls joystick)
        else rotation_y u)"
  using assms by (simp add: update_def later_blocks_keep_rotation handleMovementInput_rotation)

lemma handleMovementInput_deadzone:
  assumes "\<not> 0.05 < inputMag controls joystick"
  shows "handleMovementInput controls joystick cameraTheta u
       = u\<lparr> velocity := Vector3 (lerp (vec_x (velocity u)) 0 0.15) (vec_y (velocity u))
                                 (lerp (vec_z (velocity u)) 0 0.15) \<rparr>"
  using assms by (simp add: handleMovementInput_def Let_def)


section \<open>Penetration response\<close>

text \<open>
  C1, as amended. For every unit whose position is not below the floor (\<open>position.y \<ge> 0\<close>)
  and every single obstacle whose box it penetrates by 0.1 (the distance from the
  position to the closest point of the box is \<open>radius - 0.1\<close>), one call of
  \<open>checkCollisions\<close> moves the position exactly 0.1 along the outward normal, the
  normalised \<open>position - closestPoint\<close>, which has length 1; the velocity after the call
  has no component along that normal, and its component along every direction
  perpendicular to the normal is the one it had.
\<close>

theorem penetration_pushed_out:
  assumes above: "0 \<le> vec_y (position u)"
    and depth: "distanceTo (position u) (clampPoint box (position u)) = radius - 0.1"
  shows "position (fst (checkCollisions u [box]))
           = add3 (position u) (multiplyScalar (normalize (penetrationVector (position u) box)) 0.1)
       \<and> length3 (normalize (penetrationVector (position u) box)) = 1
       \<and> dot3 (velocity (fst (checkCollisions u [box]))) (normalize (penetrationVector (position u) box)) = 0
       \<and> (\<forall>t. dot3 t (normalize (penetrationVector (position u) box)) = 0 \<longrightarrow>
              dot3 (velocity (fst (checkCollisions u [box]))) t = dot3 (velocity u) t)"
proof -
  define u1 where "u1 = fst (collideFloor u)"
  define n where "n = normalize (penetrationVector (position u) box)"
  have pos1: "position u1 = position u"
    unfolding u1_def using above by (rule collideFloor_above)
  have vel1: "velocity u1 = velocity u"
    unfolding u1_def by (rule collideFloor_velocity)
  have pen: "distanceTo (position u1) (clampPoint box (position u1)) < radius"
    using depth by (simp add: pos1)
  have len: "length3 (penetrationVector (position u) box) \<noteq> 0"
    using depth by (simp add: penetrationVector_def length3_sub3 radius_def)
  have unit: "lengthSq n = 1"
    unfolding n_def using len by (rule normalize_unit)
  have step: "collideObstacle u1 box =
      u1\<lparr> position := add3 (position u) (multiplyScalar n 0.1),
          velocity := projectOnPlane (velocity u) (multiplyScalar n 0.1) \<rparr>"
    using collideObstacle_penetrating [OF depth_intersectsSphere [OF pen] pen] depth
    by (simp add: pos1 vel1 n_def radius_def)
  have vel: "projectOnPlane (velocity u) (multiplyScalar n 0.1)
           = sub3 (velocity u) (multiplyScalar n (dot3 n (velocity u)))"
    using unit by (intro projectOnPlane_scaled_unit) simp_all
  have res: "fst (checkCollisions u [box]) =
      u1\<lparr> position := add3 (position u) (multiplyScalar n 0.1),
          velocity := sub3 (velocity u) (multiplyScalar n (dot3 n (velocity u))) \<rparr>"
    using step vel by (simp add: checkCollisions_def u1_def)
  have c1: "position (fst (checkCollisions u [box])) = add3 (position u) (multiplyScalar n 0.1)"
    by (simp add: res)
  have c2: "length3 n = 1"
    using unit by (simp add: length3_def)
  have c3: "dot3 (velocity (fst (checkCollisions u [box]))) n = 0"
    using unit by (simp add: res dot3_sub3_left dot3_multiplyScalar_left dot3_self dot3_commute [of n "velocity u"])
  have c4: "\<forall>t. dot3 t n = 0 \<longrightarrow> dot3 (velocity (fst (checkCollisions u [box]))) t = dot3 (velocity u) t"
    by (simp add: res dot3_sub3_left dot3_multiplyScalar_left dot3_commute [of n])
  from c1 c2 c3 c4 show ?thesis
    unfolding n_def by simp
qed

theorem penetration_pushed_out_witness:
  "distanceTo (Vector3 7.6 1 10) (clampPoint (createObstacle (Vector3 10 0 10) (Vector3 4 8 4)) (Vector3 7.6 1 10))
     = radius - 0.1
   \<and> position (fst (checkCollisions ((newUnit (Vector3 7.6 1 10))\<lparr> velocity := Vector3 3 4 5 \<rparr>)
                     [createObstacle (Vector3 10 0 10) (Vector3 4 8 4)])) = Vector3 7.5 1 10
   \<and> dot3 (velocity (fst (checkCollisions ((newUnit (Vector3 7.6 1 10))\<lparr> velocity := Vector3 3 4 5 \<rparr>)
                     [createObstacle (Vector3 10 0 10) (Vector3 4 8 4)]))) (Vector3 (- 1) 0 0) = 0
   \<and> dot3 (velocity (fst (checkCollisions ((newUnit (Vector3 7.6 1 10))\<lparr> velocity := Vector3 3 4 5 \<rparr>)
                     [createObstacle (Vector3 10 0 10) (Vector3 4 8 4)]))) (Vector3 0 1 0) = 4"
proof -
  define u where "u = (newUnit (Vector3 7.6 1 10))\<lparr> velocity := Vector3 3 4 5 \<rparr>"
  define box where "box = createObstacle (Vector3 10 0 10) (Vector3 4 8 4)"
  have closest: "clampPoint box (position u) = Vector3 8 1 10"
    by (simp add: u_def box_def newUnit_def createObstacle_def clampPoint_def clamp_def)
  have pv: "penetrationVector (position u) box = Vector3 (- 0.4) 0 0"
    by (simp add: penetrationVector_def closest) (simp add: u_def newUnit_def sub3_def)
  have dist: "distanceTo (position u) (clampPoint box (position u)) = 2 / 5"
    using sqrt_4_25 by (simp add: closest) (simp add: u_def newUnit_def distanceTo_def distanceToSquared_def)
  have len: "length3 (penetrationVector (position u) box) = 2 / 5"
    by (simp only: length3_penetrationVector dist)
  have "normalize (penetrationVector (position u) box)
          = multiplyScalar (penetrationVector (position u) box) (1 / (2 / 5))"
    by (rule normalize_known_length [OF len]) simp
  then have n: "normalize (penetrationVector (position u) box) = Vector3 (- 1) 0 0"
    by (simp add: pv multiplyScalar_def)
  have above: "0 \<le> vec_y (position u)"
    by (simp add: u_def newUnit_def)
  have depth: "distanceTo (position u) (clampPoint box (position u)) = radius - 0.1"
    by (simp add: dist radius_def)
  have pos: "add3 (position u) (multiplyScalar (Vector3 (- 1) 0 0) 0.1) = Vector3 7.5 1 10"
    by (simp add: u_def newUnit_def add3_def multiplyScalar_def)
  have tang: "dot3 (Vector3 0 1 0) (Vector3 (- 1) 0 0) = 0" "dot3 (velocity u) (Vector3 0 1 0) = 4"
    by (simp_all add: dot3_def u_def)
  have posu: "position u = Vector3 7.6 1 10"
    by (simp add: u_def newUnit_def)
  note inst = penetration_pushed_out [OF above depth, unfolded n]
  have moved: "position (fst (checkCollisions u [box])) = Vector3 7.5 1 10"
    using inst pos by simp
  have normal: "dot3 (velocity (fst (checkCollisions u [box]))) (Vector3 (- 1) 0 0) = 0"
    using inst by simp
  have tangent: "dot3 (velocity (fst (checkCollisions u [box]))) (Vector3 0 1 0) = 4"
    using inst tang by metis
  have main:
    "distanceTo (Vector3 7.6 1 10) (clampPoint box (Vector3 7.6 1 10)) = radius - 0.1
     \<and> position (fst (checkCollisions u [box])) = Vector3 7.5 1 10
     \<and> dot3 (velocity (fst (checkCollisions u [box]))) (Vector3 (- 1) 0 0) = 0
     \<and> dot3 (velocity (fst (checkCollisions u [box]))) (Vector3 0 1 0) = 4"
    using depth moved normal tangent by (simp add: posu)
  show ?thesis
    using main unfolding u_def box_def .
qed

text \<open>
  The same call on a unit that is below the floor: a unit at \<open>(7.68, -0.24, 10)\<close>, at
  distance \<open>radius - 0.1\<close> from the first obstacle of the scene. The floor rule lifts it
  to \<open>y = 0\<close> first, and the push is computed from there: the call leaves it at
  \<open>(7.5, 0, 10)\<close>, not 0.1 along the normal of the position it came with, which is
  \<open>(7.6, -0.3, 10)\<close>.
\<close>

theorem penetration_below_floor_counterexample:
  "distanceTo (Vector3 7.68 (- 0.24) 10)
       (clampPoint (createObstacle (Vector3 10 0 10) (Vector3 4 8 4)) (Vector3 7.68 (- 0.24) 10))
     = radius - 0.1
   \<and> position (fst (checkCollisions (newUnit (Vector3 7.68 (- 0.24) 10))
                     [createObstacle (Vector3 10 0 10) (Vector3 4 8 4)])) = Vector3 7.5 0 10
   \<and> add3 (Vector3 7.68 (- 0.24) 10)
        (multiplyScalar
           (normalize (penetrationVector (Vector3 7.68 (- 0.24) 10)
                         (createObstacle (Vector3 10 0 10) (Vector3 4 8 4)))) 0.1)
     = Vector3 7.6 (- 0.3) 10
   \<and> position (fst (checkCollisions (newUnit (Vector3 7.68 (- 0.24) 10))
                     [createObstacle (Vector3 10 0 10) (Vector3 4 8 4)]))
     \<noteq> add3 (Vector3 7.68 (- 0.24) 10)
         (multiplyScalar
            (normalize (penetrationVector (Vector3 7.68 (- 0.24) 10)
                          (createObstacle (Vector3 10 0 10) (Vector3 4 8 4)))) 0.1)"
proof -
  define box where "box = createObstacle (Vector3 10 0 10) (Vector3 4 8 4)"
  define p where "p = Vector3 7.68 (- 0.24) 10"
  define u1 where "u1 = (newUnit p)\<lparr> position := Vector3 7.68 0 10, isGrounded := True \<rparr>"
  have closest: "clampPoint box p = Vector3 8 0 10"
    by (simp add: p_def box_def createObstacle_def clampPoint_def clamp_def)
  have dsq: "distanceToSquared p (Vector3 8 0 10) = 4 / 25"
    by (simp add: p_def distanceToSquared_def)
  have dist: "distanceTo p (clampPoint box p) = radius - 0.1"
    using sqrt_4_25 by (simp add: closest distanceTo_def dsq radius_def)
  have pv: "penetrationVector p box = Vector3 (- 0.32) (- 0.24) 0"
    by (simp add: penetrationVector_def closest) (simp add: p_def sub3_def)
  have len: "length3 (penetrationVector p box) = 2 / 5"
    using dist by (simp add: length3_penetrationVector radius_def)
  have "normalize (penetrationVector p box) = multiplyScalar (penetrationVector p box) (1 / (2 / 5))"
    by (rule normalize_known_length [OF len]) simp
  then have n: "normalize (penetrationVector p box) = Vector3 (- 0.8) (- 0.6) 0"
    by (simp add: pv multiplyScalar_def)
  have claimed: "add3 p (multiplyScalar (normalize (penetrationVector p box)) 0.1) = Vector3 7.6 (- 0.3) 10"
    unfolding n by (simp add: p_def multiplyScalar_def add3_def)
  have floor1: "fst (collideFloor (newUnit p)) = u1"
    by (simp add: collideFloor_def Let_def u1_def p_def newUnit_def)
  have closest1: "clampPoint box (position u1) = Vector3 8 0 10"
    by (simp add: u1_def box_def createObstacle_def clampPoint_def clamp_def)
  have pv1: "penetrationVector (position u1) box = Vector3 (- 0.32) 0 0"
    by (simp add: penetrationVector_def closest1) (simp add: u1_def sub3_def)
  have sq: "sqrt (64 / 625) = 8 / 25"
    by (rule real_sqrt_unique) (simp_all add: power2_eq_square)
  have dist1: "distanceTo (position u1) (clampPoint box (position u1)) = 8 / 25"
    by (simp add: closest1) (simp add: u1_def distanceTo_def distanceToSquared_def sq)
  have len1: "length3 (penetrationVector (position u1) box) = 8 / 25"
    by (simp only: length3_penetrationVector dist1)
  have "normalize (penetrationVector (position u1) box)
          = multiplyScalar (penetrationVector (position u1) box) (1 / (8 / 25))"
    by (rule normalize_known_length [OF len1]) simp
  then have n1: "normalize (penetrationVector (position u1) box) = Vector3 (- 1) 0 0"
    by (simp add: pv1 multiplyScalar_def)
  have pen1: "distanceTo (position u1) (clampPoint box (position u1)) < radius"
    by (simp add: dist1 radius_def)
  have "position (collideObstacle u1 box) = Vector3 7.5 0 10"
    unfolding collideObstacle_penetrating [OF depth_intersectsSphere [OF pen1] pen1] n1 dist1
    by (simp add: u1_def radius_def add3_def multiplyScalar_def)
  then have actual: "position (fst (checkCollisions (newUnit p) [box])) = Vector3 7.5 0 10"
    by (simp add: checkCollisions_def floor1)
  show ?thesis
    using dist actual claimed unfolding p_def box_def by simp
qed


section \<open>Landing and the dust callback\<close>

lemma collideFloor_dust_landing:
  "vec_y (position u) \<le> 0 \<Longrightarrow> \<not> isGrounded u \<Longrightarrow>
     snd (collideFloor u) = [Vector3 (vec_x (position u)) 0 (vec_z (position u))]"
  by (simp add: collideFloor_def Let_def)

lemma collideFloor_dust_grounded: "isGrounded u \<Longrightarrow> snd (collideFloor u) = []"
  by (simp add: collideFloor_def Let_def)

lemma collideObstacle_isGrounded: "isGrounded (collideObstacle u box) = isGrounded u"
  by (simp add: collideObstacle_def Let_def)

lemma collideObstacles_isGrounded: "isGrounded (collideObstacles u obs) = isGrounded u"
  by (induction obs arbitrary: u) (simp_all add: collideObstacle_isGrounded)

lemma collideFloor_isGrounded: "isGrounded (fst (collideFloor u)) = (vec_y (position u) \<le> 0)"
  by (simp add: collideFloor_def Let_def)

text \<open>
  C4. On a call of \<open>checkCollisions\<close> entered with \<open>position.y \<le> 0\<close> and \<open>isGrounded\<close>
  false, the dust callback is called exactly once, with the landing position (the
  position with its height set to 0), and the unit leaves the call grounded. On every
  call entered with \<open>isGrounded\<close> true the callback is not called.
\<close>

theorem landing_spawns_dust_once:
  "(vec_y (position u) \<le> 0 \<and> \<not> isGrounded u \<longrightarrow>
      snd (checkCollisions u obstacles) = [Vector3 (vec_x (position u)) 0 (vec_z (position u))]
      \<and> isGrounded (fst (checkCollisions u obstacles)))
   \<and> (isGrounded u \<longrightarrow> snd (checkCollisions u obstacles) = [])"
  by (simp add: checkCollisions_def collideFloor_dust_landing collideFloor_dust_grounded
      collideObstacles_isGrounded collideFloor_isGrounded)

theorem landing_spawns_dust_once_witness:
  "snd (checkCollisions (newUnit (Vector3 3 (- 0.2) 4)) sceneObstacles) = [Vector3 3 0 4]
   \<and> isGrounded (fst (checkCollisions (newUnit (Vector3 3 (- 0.2) 4)) sceneObstacles))
   \<and> snd (checkCollisions (fst (checkCollisions (newUnit (Vector3 3 (- 0.2) 4)) sceneObstacles))
             sceneObstacles) = []"
proof -
  have entry: "vec_y (position (newUnit (Vector3 3 (- 0.2) 4))) \<le> 0 \<and> \<not> isGrounded (newUnit (Vector3 3 (- 0.2) 4))"
    by (simp add: newUnit_def)
  have first: "snd (checkCollisions (newUnit (Vector3 3 (- 0.2) 4)) sceneObstacles) = [Vector3 3 0 4]
        \<and> isGrounded (fst (checkCollisions (newUnit (Vector3 3 (- 0.2) 4)) sceneObstacles))"
    using entry landing_spawns_dust_once [of "newUnit (Vector3 3 (- 0.2) 4)" sceneObstacles]
    by (simp add: newUnit_def)
  then show ?thesis
    using landing_spawns_dust_once
      [of "fst (checkCollisions (newUnit (Vector3 3 (- 0.2) 4)) sceneObstacles)" sceneObstacles]
    by simp
qed


section \<open>Resolved positions stay where they are\<close>

lemma collideObstacle_not_penetrating:
  "\<not> penetrates (position u) box \<Longrightarrow> collideObstacle u box = u"
  by (simp add: collideObstacle_def penetrates_def Let_def)

lemma collideObstacles_not_penetrating:
  "\<forall>box \<in> set obs. \<not> penetrates (position u) box \<Longrightarrow> collideObstacles u obs = u"
  by (induction obs arbitrary: u) (simp_all add: collideObstacle_not_penetrating)

lemma checkCollisions_resolved_position:
  assumes "resolved u obs"
  shows "position (fst (checkCollisions u obs)) = position u"
proof -
  have "\<forall>box \<in> set obs. \<not> penetrates (position (fst (collideFloor u))) box"
    using assms by (simp add: resolved_def collideFloor_above)
  then have "collideObstacles (fst (collideFloor u)) obs = fst (collideFloor u)"
    by (rule collideObstacles_not_penetrating)
  then show ?thesis
    using assms by (simp add: checkCollisions_def resolved_def collideFloor_above)
qed

text \<open>
  C5. For every unit whose position is already resolved (it penetrates no obstacle of
  the list and is not below the floor), a call of \<open>checkCollisions\<close> leaves the position
  where it is, and a second call right after the first leaves it unchanged again.
\<close>

theorem checkCollisions_idempotent_on_resolved:
  assumes "resolved u obstacles"
  shows "position (fst (checkCollisions u obstacles)) = position u
       \<and> position (fst (checkCollisions (fst (checkCollisions u obstacles)) obstacles))
           = position (fst (checkCollisions u obstacles))"
proof -
  have first: "position (fst (checkCollisions u obstacles)) = position u"
    using assms by (rule checkCollisions_resolved_position)
  have "resolved (fst (checkCollisions u obstacles)) obstacles"
    using assms first by (simp add: resolved_def)
  then have "position (fst (checkCollisions (fst (checkCollisions u obstacles)) obstacles))
           = position (fst (checkCollisions u obstacles))"
    by (rule checkCollisions_resolved_position)
  with first show ?thesis by simp
qed

theorem checkCollisions_idempotent_on_resolved_witness:
  "resolved (newUnit (Vector3 7 0 10)) sceneObstacles
   \<and> position (fst (checkCollisions (newUnit (Vector3 7 0 10)) sceneObstacles)) = Vector3 7 0 10
   \<and> position (fst (checkCollisions (fst (checkCollisions (newUnit (Vector3 7 0 10)) sceneObstacles))
                     sceneObstacles)) = Vector3 7 0 10"
proof -
  have b1: "\<not> penetrates (Vector3 7 0 10) (createObstacle (Vector3 10 0 10) (Vector3 4 8 4))"
    by (rule not_penetrates_far) (simp add: createObstacle_def clampPoint_def clamp_def distanceToSquared_def)
  have b2: "\<not> penetrates (Vector3 7 0 10) (createObstacle (Vector3 (- 15) 0 5) (Vector3 6 4 6))"
    by (rule not_penetrates_far) (simp add: createObstacle_def clampPoint_def clamp_def distanceToSquared_def)
  have b3: "\<not> penetrates (Vector3 7 0 10) (createObstacle (Vector3 5 0 (- 20)) (Vector3 10 2 2))"
    by (rule not_penetrates_far) (simp add: createObstacle_def clampPoint_def clamp_def distanceToSquared_def)
  have res: "resolved (newUnit (Vector3 7 0 10)) sceneObstacles"
    using b1 b2 b3 by (simp add: resolved_def sceneObstacles_def newUnit_def)
  show ?thesis
    using res checkCollisions_idempotent_on_resolved [OF res]
    by (simp add: newUnit_def)
qed


section \<open>The camera pitch\<close>

lemma lerp_between:
  assumes "lo \<le> a" "a \<le> hi" "lo \<le> b" "b \<le> hi"
  shows "lo \<le> lerp a b 0.1 \<and> lerp a b 0.1 \<le> hi"
  using assms by (simp add: lerp_def) 

lemma clamp_between: "lo \<le> hi \<Longrightarrow> lo \<le> clamp v lo hi \<and> clamp v lo hi \<le> hi"
  by (simp add: clamp_def)

lemma pitchInRange_step: "pitchInRange v \<Longrightarrow> pitchInRange (cameraStep v e)"
proof (cases e)
  case (MouseDown a b)
  assume "pitchInRange v"
  then show ?thesis using MouseDown by (simp add: pitchInRange_def onMouseDown_def)
next
  case (MouseMove a b)
  assume "pitchInRange v"
  then show ?thesis using MouseMove clamp_between [of "-0.2" "1.3"]
    by (simp add: pitchInRange_def onMouseMove_def Let_def)
next
  case MouseUp
  assume "pitchInRange v"
  then show ?thesis using MouseUp by (simp add: pitchInRange_def onMouseUp_def)
next
  case (Frame c h)
  assume inv: "pitchInRange v"
  show ?thesis
  proof (cases h)
    case None
    then show ?thesis using inv Frame by (simp add: animateCamera_def)
  next
    case (Some heading)
    show ?thesis
    proof (cases "resetCamera c")
      case True
      have "(- 0.2::real) \<le> lerp (phi (cameraOrbit v)) 0.3 0.1 \<and> lerp (phi (cameraOrbit v)) 0.3 0.1 \<le> 1.3"
        using inv by (intro lerp_between) (simp_all add: pitchInRange_def)
      then show ?thesis using Frame Some True
        by (simp add: animateCamera_def Let_def pitchInRange_def)
    next
      case False
      have "(- 0.2::real) \<le> lerp (phi (cameraOrbit v)) (targetPhi (cameraOrbit v)) 0.1
          \<and> lerp (phi (cameraOrbit v)) (targetPhi (cameraOrbit v)) 0.1 \<le> 1.3"
        using inv by (intro lerp_between) (simp_all add: pitchInRange_def)
      then show ?thesis using Frame Some False inv
        by (simp add: animateCamera_def Let_def pitchInRange_def)
    qed
  qed
qed

lemma pitchInRange_foldl: "pitchInRange v \<Longrightarrow> pitchInRange (foldl cameraStep v es)"
  by (induction es arbitrary: v) (simp_all add: pitchInRange_step)

lemma pitchInRange_initial: "pitchInRange initialView"
  by (simp add: pitchInRange_def initialView_def)

text \<open>
  C6. Starting from the initial view (\<open>phi = targetPhi = 0.3\<close>), after every sequence of
  pointer events (presses, drags of any size, releases) and frames (with or without a
  recenter), both \<open>targetPhi\<close> and \<open>phi\<close> are in \<open>[-0.2, 1.3]\<close>.
\<close>

theorem camera_pitch_stays_clamped: "pitchInRange (cameraRun events)"
  unfolding cameraRun_def by (rule pitchInRange_foldl) (rule pitchInRange_initial)

theorem camera_pitch_stays_clamped_witness:
  "targetPhi (cameraOrbit (cameraRun [MouseDown 0 0, MouseMove 0 100000, Frame initialControls (Some 0)])) = 1.3
   \<and> phi (cameraOrbit (cameraRun [MouseDown 0 0, MouseMove 0 100000, Frame initialControls (Some 0)])) = 0.4
   \<and> pitchInRange (cameraRun [MouseDown 0 0, MouseMove 0 100000, Frame initialControls (Some 0)])"
  using camera_pitch_stays_clamped [of "[MouseDown 0 0, MouseMove 0 100000, Frame initialControls (Some 0)]"]
  by (simp add: cameraRun_def onMouseDown_def onMouseMove_def animateCamera_def
      initialView_def Let_def clamp_def lerp_def initialControls_def)


section \<open>The jump impulse\<close>

text \<open>
  C2, as amended. For every loaded unit (the mixer is set) that is grounded, one call
  of \<open>update\<close>, with \<open>delta = 0\<close> as with any other time step, sets \<open>velocity.y\<close> to exactly
  13.0 and \<open>isGrounded\<close> to false when \<open>jump\<close> is set, whatever the direction flags, the
  joystick, the camera angle and the animation override are; and sets \<open>velocity.y\<close> to 0
  when \<open>jump\<close> is not set.
\<close>

theorem jump_impulse_when_loaded:
  assumes "mixer u" and "isGrounded u"
  shows "(jump controls \<longrightarrow>
            vec_y (velocity (update delta controls joystick cameraTheta testAnimation u)) = 13.0
            \<and> \<not> isGrounded (update delta controls joystick cameraTheta testAnimation u))
       \<and> (\<not> jump controls \<longrightarrow>
            vec_y (velocity (update delta controls joystick cameraTheta testAnimation u)) = 0)"
proof -
  have "isGrounded (handleMovementInput controls joystick cameraTheta u)"
    using assms(2) by (simp add: handleMovementInput_keeps)
  from gravityAndJumping_grounded [OF this, of delta controls] show ?thesis
    using assms(1) by (simp add: update_def animations_keeps applyVelocity_keeps)
qed

theorem jump_impulse_when_loaded_witness:
  "vec_y (velocity (update 0 (initialControls\<lparr> jump := True, left := True \<rparr>) initialJoystick pi None
       (load [''Idle'', ''Walking'', ''Running'', ''Jump''] ((newUnit (Vector3 0 0 0))\<lparr> isGrounded := True \<rparr>)))) = 13.0
   \<and> \<not> isGrounded (update 0 (initialControls\<lparr> jump := True, left := True \<rparr>) initialJoystick pi None
       (load [''Idle'', ''Walking'', ''Running'', ''Jump''] ((newUnit (Vector3 0 0 0))\<lparr> isGrounded := True \<rparr>)))
   \<and> vec_y (velocity (update 0 initialControls initialJoystick pi None
       (load [''Idle'', ''Walking'', ''Running'', ''Jump'']
          ((newUnit (Vector3 0 0 0))\<lparr> isGrounded := True, velocity := Vector3 0 (- 3) 0 \<rparr>)))) = 0"
  using jump_impulse_when_loaded
     [of "load [''Idle'', ''Walking'', ''Running'', ''Jump''] ((newUnit (Vector3 0 0 0))\<lparr> isGrounded := True \<rparr>)"
         "initialControls\<lparr> jump := True, left := True \<rparr>" 0 initialJoystick pi None]
    jump_impulse_when_loaded
     [of "load [''Idle'', ''Walking'', ''Running'', ''Jump'']
            ((newUnit (Vector3 0 0 0))\<lparr> isGrounded := True, velocity := Vector3 0 (- 3) 0 \<rparr>)"
         initialControls 0 initialJoystick pi None]
  by (simp add: load_def newUnit_def initialControls_def)

text \<open>
  Before the load the same call changes nothing. The unit of the scene after its first
  frame is grounded and not loaded: with \<open>jump\<close> set and \<open>delta = 0\<close>, \<open>update\<close> leaves its
  \<open>velocity.y\<close> at 0 and the unit grounded.
\<close>

theorem jump_before_load_counterexample:
  "isGrounded (fst (checkCollisions (newUnit (Vector3 0 0 0)) []))
   \<and> jump (initialControls\<lparr> jump := True \<rparr>)
   \<and> vec_y (velocity (update 0 (initialControls\<lparr> jump := True \<rparr>) initialJoystick pi None
          (fst (checkCollisions (newUnit (Vector3 0 0 0)) [])))) = 0
   \<and> isGrounded (update 0 (initialControls\<lparr> jump := True \<rparr>) initialJoystick pi None
          (fst (checkCollisions (newUnit (Vector3 0 0 0)) [])))"
  by (simp add: update_def checkCollisions_def collideFloor_def newUnit_def Let_def zero3_def)


section \<open>The yaw step\<close>

declare wrapUp.simps [simp del] wrapDown.simps [simp del]

lemma wrapUp_lower: "- pi \<le> wrapUp d"
  by (induction d rule: wrapUp.induct) (subst wrapUp.simps, simp)

lemma wrapUp_id: "- pi \<le> d \<Longrightarrow> wrapUp d = d"
  by (subst wrapUp.simps) simp

lemma wrapUp_upper: "d < - pi \<Longrightarrow> wrapUp d < pi"
proof (induction d rule: wrapUp.induct)
  case (1 d)
  show ?case
  proof (cases "d + pi * 2 < - pi")
    case True
    then have "wrapUp (d + pi * 2) < pi" using 1 by simp
    then show ?thesis using 1(2) by (subst wrapUp.simps) simp
  next
    case False
    then have "wrapUp (d + pi * 2) = d + pi * 2" by (simp add: wrapUp_id)
    then show ?thesis using 1(2) by (subst wrapUp.simps) simp
  qed
qed

lemma wrapUp_turns: "\<exists>k::nat. wrapUp d = d + 2 * pi * real k"
proof (induction d rule: wrapUp.induct)
  case (1 d)
  show ?case
  proof (cases "d < - pi")
    case True
    then obtain k :: nat where "wrapUp (d + pi * 2) = d + pi * 2 + 2 * pi * real k"
      using 1 by blast
    then have "wrapUp d = d + 2 * pi * real (Suc k)"
      using True by (subst wrapUp.simps) (simp add: algebra_simps)
    then show ?thesis by blast
  next
    case False
    then have "wrapUp d = d + 2 * pi * real (0::nat)" by (simp add: wrapUp_id)
    then show ?thesis by blast
  qed
qed

lemma wrapDown_upper: "wrapDown d \<le> pi"
  by (induction d rule: wrapDown.induct) (subst wrapDown.simps, simp)

lemma wrapDown_id: "d \<le> pi \<Longrightarrow> wrapDown d = d"
  by (subst wrapDown.simps) simp

lemma wrapDown_lower: "pi < d \<Longrightarrow> - pi < wrapDown d"
proof (induction d rule: wrapDown.induct)
  case (1 d)
  show ?case
  proof (cases "pi < d - pi * 2")
    case True
    then have "- pi < wrapDown (d - pi * 2)" using 1 by simp
    then show ?thesis using 1(2) by (subst wrapDown.simps) simp
  next
    case False
    then have "wrapDown (d - pi * 2) = d - pi * 2" by (simp add: wrapDown_id)
    then show ?thesis using 1(2) by (subst wrapDown.simps) simp
  qed
qed

lemma wrapDown_turns: "\<exists>k::nat. wrapDown d = d - 2 * pi * real k"
proof (induction d rule: wrapDown.induct)
  case (1 d)
  show ?case
  proof (cases "pi < d")
    case True
    then obtain k :: nat where "wrapDown (d - pi * 2) = d - pi * 2 - 2 * pi * real k"
      using 1 by blast
    then have "wrapDown d = d - 2 * pi * real (Suc k)"
      using True by (subst wrapDown.simps) (simp add: algebra_simps)
    then show ?thesis by blast
  next
    case False
    then have "wrapDown d = d - 2 * pi * real (0::nat)" by (simp add: wrapDown_id)
    then show ?thesis by blast
  qed
qed

lemma wrapDiff_cases:
  "wrapDiff d = (if d < - pi then wrapUp d else if pi < d then wrapDown d else d)"
proof -
  have "d < - pi \<Longrightarrow> wrapDown (wrapUp d) = wrapUp d"
    using wrapUp_upper [of d] by (simp add: wrapDown_id)
  moreover have "\<not> d < - pi \<Longrightarrow> wrapDown (wrapUp d) = wrapDown d"
    by (simp add: wrapUp_id)
  ultimately show ?thesis
    by (simp add: wrapDiff_def wrapDown_id)
qed

lemma wrapDiff_range: "- pi \<le> wrapDiff d \<and> wrapDiff d \<le> pi"
  using wrapUp_lower [of d] wrapUp_upper [of d] wrapDown_upper [of d] wrapDown_lower [of d]
  by (auto simp add: wrapDiff_cases)

lemma wrapDiff_open: "- pi < d \<Longrightarrow> - pi < wrapDiff d"
  using wrapDown_lower [of d] by (auto simp add: wrapDiff_cases)

lemma wrapDiff_turns: "\<exists>k::int. wrapDiff d = d + 2 * pi * real_of_int k"
proof -
  obtain a :: nat where a: "wrapUp d = d + 2 * pi * real a"
    using wrapUp_turns by blast
  obtain b :: nat where b: "wrapDown (wrapUp d) = wrapUp d - 2 * pi * real b"
    using wrapDown_turns by blast
  have "wrapDiff d = wrapUp d - 2 * pi * real b"
    by (simp only: wrapDiff_def b)
  then have "wrapDiff d = d + 2 * pi * real a - 2 * pi * real b"
    by (simp only: a)
  then have "wrapDiff d = d + 2 * pi * real_of_int (int a - int b)"
    by (simp add: algebra_simps)
  then show ?thesis by blast
qed

lemma wrapDiff_pi: "wrapDiff pi = pi"
  by (simp add: wrapDiff_cases)

lemma wrapDiff_3pi: "wrapDiff (3 * pi) = pi"
proof -
  have "wrapDown (3 * pi) = wrapDown pi"
    by (subst wrapDown.simps) simp
  then show ?thesis by (simp add: wrapDiff_cases wrapDown_id)
qed

lemma wrapUp_step: "d < - pi \<Longrightarrow> wrapUp d = wrapUp (d + pi * 2)"
  by (subst wrapUp.simps) simp

lemma wrapUp_odd_turns: "wrapUp (- pi - 2 * pi * real k) = - pi"
proof (induction k)
  case 0
  show ?case by (simp add: wrapUp_id)
next
  case (Suc k)
  have lt: "- pi - 2 * pi * real (Suc k) < - pi"
    by simp
  have shift: "- pi - 2 * pi * real (Suc k) + pi * 2 = - pi - 2 * pi * real k"
    by (simp add: algebra_simps)
  have "wrapUp (- pi - 2 * pi * real (Suc k)) = wrapUp (- pi - 2 * pi * real (Suc k) + pi * 2)"
    using lt by (rule wrapUp_step)
  also have "\<dots> = wrapUp (- pi - 2 * pi * real k)"
    by (simp only: shift)
  finally show ?case
    by (simp only: Suc)
qed

lemma wrapDiff_minus_pi_iff:
  "wrapDiff d = - pi \<longleftrightarrow> (\<exists>k::nat. d = - pi - 2 * pi * real k)"
proof
  assume eq: "wrapDiff d = - pi"
  show "\<exists>k::nat. d = - pi - 2 * pi * real k"
  proof (cases "d < - pi")
    case True
    then have up: "wrapUp d = - pi"
      using eq by (simp add: wrapDiff_cases)
    obtain k :: nat where "wrapUp d = d + 2 * pi * real k"
      using wrapUp_turns by blast
    then have "d = - pi - 2 * pi * real k"
      using up by simp
    then show ?thesis by blast
  next
    case False
    have "\<not> pi < d"
      using wrapDown_lower [of d] eq False by (auto simp add: wrapDiff_cases)
    then have "d = - pi - 2 * pi * real (0::nat)"
      using eq False by (simp add: wrapDiff_cases)
    then show ?thesis by blast
  qed
next
  assume "\<exists>k::nat. d = - pi - 2 * pi * real k"
  then obtain k :: nat where d: "d = - pi - 2 * pi * real k"
    by blast
  have "d \<le> - pi"
    unfolding d by simp
  then have "wrapDiff d = wrapUp d"
    by (simp add: wrapDiff_cases wrapUp_id)
  then show "wrapDiff d = - pi"
    unfolding d by (simp only: wrapUp_odd_turns)
qed

lemma targetYaw_forward:
  assumes "forward controls" and "\<not> backward controls" and "\<not> left controls" and "\<not> right controls"
    and "\<not> active joystick"
  shows "targetYaw 0 controls joystick = pi"
  by (simp add: forward_only_intent [OF assms] moveDir_forward atan2_def)

lemma targetYaw_backward:
  assumes "\<not> forward controls" and "backward controls" and "\<not> left controls" and "\<not> right controls"
    and "\<not> active joystick"
  shows "targetYaw 0 controls joystick = 0"
  by (simp add: backward_only_intent [OF assms] moveDir_backward atan2_def)

text \<open>
  C3, as amended. For every loaded unit and every input above the deadzone, \<open>update\<close>
  adds to the heading 15% of the difference between the target yaw (the \<open>atan2\<close> of the
  move direction) and the heading, brought into the closed interval \<open>[-\<pi>, \<pi>]\<close> by whole
  turns. The wrapped difference is \<open>-\<pi>\<close> exactly when the difference is \<open>-\<pi> - 2k\<pi>\<close> for
  some \<open>k \<ge> 0\<close> (so a difference of exactly \<open>-\<pi>\<close> stays \<open>-\<pi>\<close>), and lies in \<open>(-\<pi>, \<pi>]\<close>
  otherwise. When the target is the heading \<open>+ 3\<pi>\<close> the heading moves by \<open>0.15 \<pi>\<close>, exactly
  as when the target is the heading \<open>+ \<pi>\<close>.
\<close>

theorem update_turns_by_wrapped_difference:
  assumes loaded: "mixer u" and moving: "0.05 < inputMag controls joystick"
  shows "rotation_y (update delta controls joystick cameraTheta testAnimation u)
           = rotation_y u + 0.15 * wrapDiff (targetYaw cameraTheta controls joystick - rotation_y u)
       \<and> - pi \<le> wrapDiff (targetYaw cameraTheta controls joystick - rotation_y u)
       \<and> wrapDiff (targetYaw cameraTheta controls joystick - rotation_y u) \<le> pi
       \<and> (\<exists>k::int. wrapDiff (targetYaw cameraTheta controls joystick - rotation_y u)
              = targetYaw cameraTheta controls joystick - rotation_y u + 2 * pi * real_of_int k)
       \<and> (wrapDiff (targetYaw cameraTheta controls joystick - rotation_y u) = - pi
            \<longleftrightarrow> (\<exists>k::nat. targetYaw cameraTheta controls joystick - rotation_y u
                            = - pi - 2 * pi * real k))
       \<and> (targetYaw cameraTheta controls joystick = rotation_y u + 3 * pi \<longrightarrow>
            rotation_y (update delta controls joystick cameraTheta testAnimation u)
              = rotation_y u + 0.15 * pi)
       \<and> (targetYaw cameraTheta controls joystick = rotation_y u + pi \<longrightarrow>
            rotation_y (update delta controls joystick cameraTheta testAnimation u)
              = rotation_y u + 0.15 * pi)"
proof -
  have turn: "rotation_y (update delta controls joystick cameraTheta testAnimation u)
           = rotation_y u + 0.15 * wrapDiff (targetYaw cameraTheta controls joystick - rotation_y u)"
    using update_rotation [OF loaded, of delta controls joystick cameraTheta testAnimation] moving
    by (simp add: yawDelta_def)
  have three: "rotation_y (update delta controls joystick cameraTheta testAnimation u)
              = rotation_y u + 0.15 * pi"
    if "targetYaw cameraTheta controls joystick = rotation_y u + 3 * pi"
    unfolding turn that by (simp add: wrapDiff_3pi)
  have one: "rotation_y (update delta controls joystick cameraTheta testAnimation u)
              = rotation_y u + 0.15 * pi"
    if "targetYaw cameraTheta controls joystick = rotation_y u + pi"
    unfolding turn that by (simp add: wrapDiff_pi)
  show ?thesis
    using turn three one wrapDiff_range [of "targetYaw cameraTheta controls joystick - rotation_y u"]
      wrapDiff_turns [of "targetYaw cameraTheta controls joystick - rotation_y u"]
      wrapDiff_minus_pi_iff [of "targetYaw cameraTheta controls joystick - rotation_y u"]
    by blast
qed

theorem update_turns_by_wrapped_difference_witness:
  "rotation_y (update 0.016 (initialControls\<lparr> forward := True \<rparr>) initialJoystick 0 None
       ((load [''Idle'', ''Walking'', ''Running'', ''Jump''] (newUnit (Vector3 0 0 0)))
          \<lparr> rotation_y := - 2 * pi \<rparr>)) = - 2 * pi + 0.15 * pi
   \<and> rotation_y (update 0.016 (initialControls\<lparr> forward := True \<rparr>) initialJoystick 0 None
       (load [''Idle'', ''Walking'', ''Running'', ''Jump''] (newUnit (Vector3 0 0 0)))) = 0.15 * pi
   \<and> wrapDiff (- 3 * pi) = - pi"
proof -
  define c where "c = initialControls\<lparr> forward := True \<rparr>"
  define u where "u = (load [''Idle'', ''Walking'', ''Running'', ''Jump''] (newUnit (Vector3 0 0 0)))
          \<lparr> rotation_y := - 2 * pi \<rparr>"
  define v where "v = load [''Idle'', ''Walking'', ''Running'', ''Jump''] (newUnit (Vector3 0 0 0))"
  have keys: "forward c" "\<not> backward c" "\<not> left c" "\<not> right c" "\<not> active initialJoystick"
    by (simp_all add: c_def initialControls_def initialJoystick_def)
  have target: "targetYaw 0 c initialJoystick = pi"
    using keys by (rule targetYaw_forward)
  have moving: "0.05 < inputMag c initialJoystick"
    by (simp add: forward_only_intent [OF keys])
  have lu: "mixer u" "rotation_y u = - 2 * pi" and lv: "mixer v" "rotation_y v = 0"
    by (simp_all add: u_def v_def load_def newUnit_def)
  have a: "rotation_y (update 0.016 c initialJoystick 0 None u) = - 2 * pi + 0.15 * pi"
    using update_turns_by_wrapped_difference [OF lu(1) moving, of "0.016" 0 None] target lu(2)
    by simp
  have b: "rotation_y (update 0.016 c initialJoystick 0 None v) = 0.15 * pi"
    using update_turns_by_wrapped_difference [OF lv(1) moving, of "0.016" 0 None] target lv(2)
    by simp
  have "wrapDiff (- pi - 2 * pi * real (1::nat)) = - pi"
    using update_turns_by_wrapped_difference [OF lv(1) moving, of "0.016" 0 None]
    by (simp only: wrapDiff_minus_pi_iff) blast
  then have w: "wrapDiff (- 3 * pi) = - pi"
    by simp
  show ?thesis
    using a b w unfolding c_def u_def v_def by blast
qed

text \<open>
  The lower end is not excluded. A loaded unit with heading \<open>\<pi>\<close> and only \<open>backward\<close>
  pressed at camera angle 0: the target yaw is 0, the difference is exactly \<open>-\<pi>\<close>, both
  loops leave it, and the heading moves to \<open>\<pi> - 0.15 \<pi>\<close>, not to \<open>\<pi> + 0.15 \<pi>\<close>.
\<close>

theorem half_turn_back_counterexample:
  "rotation_y ((load [''Idle'', ''Walking'', ''Running'', ''Jump''] (newUnit (Vector3 0 0 0)))
          \<lparr> rotation_y := pi \<rparr>) = pi
   \<and> targetYaw 0 (initialControls\<lparr> backward := True \<rparr>) initialJoystick = 0
   \<and> rotation_y (update 0.016 (initialControls\<lparr> backward := True \<rparr>) initialJoystick 0 None
       ((load [''Idle'', ''Walking'', ''Running'', ''Jump''] (newUnit (Vector3 0 0 0)))
          \<lparr> rotation_y := pi \<rparr>)) = pi - 0.15 * pi
   \<and> rotation_y (update 0.016 (initialControls\<lparr> backward := True \<rparr>) initialJoystick 0 None
       ((load [''Idle'', ''Walking'', ''Running'', ''Jump''] (newUnit (Vector3 0 0 0)))
          \<lparr> rotation_y := pi \<rparr>)) \<noteq> pi + 0.15 * pi"
proof -
  define c where "c = initialControls\<lparr> backward := True \<rparr>"
  define u where "u = (load [''Idle'', ''Walking'', ''Running'', ''Jump''] (newUnit (Vector3 0 0 0)))
          \<lparr> rotation_y := pi \<rparr>"
  have keys: "\<not> forward c" "backward c" "\<not> left c" "\<not> right c" "\<not> active initialJoystick"
    by (simp_all add: c_def initialControls_def initialJoystick_def)
  have target: "targetYaw 0 c initialJoystick = 0"
    using keys by (rule targetYaw_backward)
  have moving: "0.05 < inputMag c initialJoystick"
    by (simp add: backward_only_intent [OF keys])
  have lu: "mixer u" "rotation_y u = pi"
    by (simp_all add: u_def load_def)
  have "wrapDiff (0 - pi) = - pi"
    by (simp add: wrapDiff_cases)
  then have a: "rotation_y (update 0.016 c initialJoystick 0 None u) = pi - 0.15 * pi"
    using update_rotation [OF lu(1), of "0.016" c initialJoystick 0 None] moving
    by (simp add: target lu(2) yawDelta_def)
  have b: "rotation_y (update 0.016 c initialJoystick 0 None u) \<noteq> pi + 0.15 * pi"
    unfolding a by simp
  show ?thesis
    using lu(2) target a b unfolding c_def u_def by blast
qed


section \<open>Zero vectors and \<open>normalize\<close>\<close>

lemma rotate_lengthSq:
  fixes s c mx mz :: real
  shows "(- s * mz + c * mx) * (- s * mz + c * mx) + (- c * mz + - s * mx) * (- c * mz + - s * mx)
       = (s * s + c * c) * (mx * mx + mz * mz)"
  by (simp add: algebra_simps)

lemma moveDirRaw_lengthSq: "lengthSq (moveDirRaw cameraTheta mx mz) = mx * mx + mz * mz"
proof -
  have "lengthSq (moveDirRaw cameraTheta mx mz)
      = (- sin cameraTheta * mz + cos cameraTheta * mx) * (- sin cameraTheta * mz + cos cameraTheta * mx)
        + (- cos cameraTheta * mz + - sin cameraTheta * mx) * (- cos cameraTheta * mz + - sin cameraTheta * mx)"
    by (simp add: moveDirRaw_def addScaledVector_def zero3_def lengthSq_def)
  also have "\<dots> = (sin cameraTheta * sin cameraTheta + cos cameraTheta * cos cameraTheta) * (mx * mx + mz * mz)"
    by (rule rotate_lengthSq)
  also have "\<dots> = mx * mx + mz * mz"
    using sin_cos_squared_add [of cameraTheta] by (simp add: power2_eq_square)
  finally show ?thesis .
qed

lemma inputMag_deadzone:
  assumes "0.05 < inputMag controls joystick"
  shows "0 < moveX controls joystick * moveX controls joystick + moveZ controls joystick * moveZ controls joystick"
proof -
  have "0 < length2 (moveX controls joystick) (moveZ controls joystick)"
    using assms by (simp add: inputMag_def)
  then show ?thesis by (simp add: length2_def)
qed

lemma clampPoint_inside: "containsPoint box p \<Longrightarrow> clampPoint box p = p"
  by (cases p) (simp add: containsPoint_def clampPoint_def clamp_def)

lemma penetrationVector_zero: "penetrationVector p box = zero3 \<longleftrightarrow> clampPoint box p = p"
  by (cases p; cases "clampPoint box p") (auto simp add: penetrationVector_def sub3_def zero3_def)

lemma normalize_zero3: "normalize zero3 = zero3"
  by (simp add: normalize_def zero3_def length3_def lengthSq_def multiplyScalar_def)

lemma moveDir_unit:
  assumes "0.05 < inputMag controls joystick"
  shows "length3 (moveDir cameraTheta (moveX controls joystick) (moveZ controls joystick)) = 1"
proof -
  have "0 < lengthSq (moveDirRaw cameraTheta (moveX controls joystick) (moveZ controls joystick))"
    using inputMag_deadzone [OF assms] by (simp add: moveDirRaw_lengthSq)
  then have "length3 (moveDirRaw cameraTheta (moveX controls joystick) (moveZ controls joystick)) \<noteq> 0"
    by (simp add: length3_def)
  then have "lengthSq (moveDir cameraTheta (moveX controls joystick) (moveZ controls joystick)) = 1"
    unfolding moveDir_def by (rule normalize_unit)
  then show ?thesis
    by (simp add: length3_def)
qed

lemma collideObstacle_inside:
  assumes "containsPoint box (position u)"
  shows "collideObstacle u box = u"
proof -
  have fixed: "clampPoint box (position u) = position u"
    using assms by (rule clampPoint_inside)
  have pv: "penetrationVector (position u) box = zero3"
    by (simp add: penetrationVector_zero fixed)
  have near: "intersectsSphere box (position u) height"
    by (simp add: intersectsSphere_def fixed distanceToSquared_def height_def)
  have pen: "distanceTo (position u) (clampPoint box (position u)) < radius"
    by (simp add: fixed distanceTo_def distanceToSquared_def radius_def)
  have stay: "add3 (position u) (multiplyScalar zero3 s) = position u" for s
    by (cases "position u") (simp add: add3_def multiplyScalar_def zero3_def)
  have keep: "projectOnPlane (velocity u) (multiplyScalar zero3 s) = velocity u" for s
    by (cases "velocity u")
      (simp add: projectOnPlane_def projectOnVector_def multiplyScalar_def zero3_def lengthSq_def sub3_def)
  show ?thesis
    unfolding collideObstacle_penetrating [OF near pen] pv normalize_zero3 stay keep by simp
qed

text \<open>
  C9. The claim holds of \<open>update\<close> and fails of \<open>checkCollisions\<close>. For every unit whose
  position is on or inside the box of an obstacle, the sphere test and the test
  \<open>distance < radius\<close> of the loop both pass, the vector \<open>position - closestPoint\<close> handed
  to \<open>normalize\<close> is the zero vector, \<open>normalize\<close> returns the zero vector, and the loop
  body leaves the unit where it is: it is not pushed out. In \<open>update\<close>, above the
  deadzone the vector handed to \<open>normalize\<close> is not zero and the move direction has
  length 1; inside the deadzone block 1 only decays the horizontal velocity and no
  move direction enters the result.
\<close>

theorem unit_inside_box_is_not_pushed_out:
  assumes inside: "containsPoint box (position u)"
  shows "intersectsSphere box (position u) height
       \<and> distanceTo (position u) (clampPoint box (position u)) < radius
       \<and> penetrationVector (position u) box = zero3
       \<and> normalize (penetrationVector (position u) box) = zero3
       \<and> collideObstacle u box = u
       \<and> (0.05 < inputMag controls joystick \<longrightarrow>
            moveDirRaw cameraTheta (moveX controls joystick) (moveZ controls joystick) \<noteq> zero3
            \<and> length3 (moveDir cameraTheta (moveX controls joystick) (moveZ controls joystick)) = 1)
       \<and> (\<not> 0.05 < inputMag controls joystick \<longrightarrow>
            handleMovementInput controls joystick cameraTheta v
              = v\<lparr> velocity := Vector3 (lerp (vec_x (velocity v)) 0 0.15) (vec_y (velocity v))
                                       (lerp (vec_z (velocity v)) 0 0.15) \<rparr>)"
proof -
  have fixed: "clampPoint box (position u) = position u"
    using inside by (rule clampPoint_inside)
  have pv: "penetrationVector (position u) box = zero3"
    by (simp add: penetrationVector_zero fixed)
  have near: "intersectsSphere box (position u) height"
    by (simp add: intersectsSphere_def fixed distanceToSquared_def height_def)
  have pen: "distanceTo (position u) (clampPoint box (position u)) < radius"
    by (simp add: fixed distanceTo_def distanceToSquared_def radius_def)
  have nz: "moveDirRaw cameraTheta (moveX controls joystick) (moveZ controls joystick) \<noteq> zero3"
    if "0.05 < inputMag controls joystick"
  proof
    assume "moveDirRaw cameraTheta (moveX controls joystick) (moveZ controls joystick) = zero3"
    then have "lengthSq (moveDirRaw cameraTheta (moveX controls joystick) (moveZ controls joystick)) = 0"
      by (simp add: zero3_def lengthSq_def)
    then show False
      using inputMag_deadzone [OF that] by (simp add: moveDirRaw_lengthSq)
  qed
  show ?thesis
    using near pen pv nz collideObstacle_inside [OF inside]
      moveDir_unit [of controls joystick cameraTheta]
      handleMovementInput_deadzone [of controls joystick cameraTheta v]
    by (simp add: normalize_zero3)
qed

theorem unit_inside_box_is_not_pushed_out_witness:
  "containsPoint (createObstacle (Vector3 10 0 10) (Vector3 4 8 4)) (Vector3 8.2 0 10)
   \<and> normalize (penetrationVector (Vector3 8.2 0 10) (createObstacle (Vector3 10 0 10) (Vector3 4 8 4)))
       = zero3
   \<and> position (fst (checkCollisions ((newUnit (Vector3 8.2 0 10))\<lparr> velocity := Vector3 3 0 0 \<rparr>)
                     [createObstacle (Vector3 10 0 10) (Vector3 4 8 4)])) = Vector3 8.2 0 10
   \<and> velocity (fst (checkCollisions ((newUnit (Vector3 8.2 0 10))\<lparr> velocity := Vector3 3 0 0 \<rparr>)
                     [createObstacle (Vector3 10 0 10) (Vector3 4 8 4)])) = Vector3 3 0 0"
proof -
  define box where "box = createObstacle (Vector3 10 0 10) (Vector3 4 8 4)"
  define u where "u = (newUnit (Vector3 8.2 0 10))\<lparr> velocity := Vector3 3 0 0 \<rparr>"
  define u1 where "u1 = fst (collideFloor u)"
  have p1: "position u1 = Vector3 8.2 0 10" and v1: "velocity u1 = Vector3 3 0 0"
    by (simp_all add: u1_def u_def collideFloor_def Let_def newUnit_def)
  have inside: "containsPoint box (Vector3 8.2 0 10)"
    by (simp add: box_def containsPoint_def createObstacle_def)
  then have inside1: "containsPoint box (position u1)"
    by (simp only: p1)
  note stuck = unit_inside_box_is_not_pushed_out [OF inside1, of initialControls initialJoystick 0 u]
  have n: "normalize (penetrationVector (Vector3 8.2 0 10) box) = zero3"
    using stuck unfolding p1 by blast
  have "fst (checkCollisions u [box]) = u1"
    using stuck by (simp add: checkCollisions_def u1_def)
  then have "position (fst (checkCollisions u [box])) = Vector3 8.2 0 10
      \<and> velocity (fst (checkCollisions u [box])) = Vector3 3 0 0"
    by (simp only: p1 v1)
  then show ?thesis
    using inside n unfolding box_def u_def by blast
qed


section \<open>Walking forward for a second\<close>

lemma handleMovementInput_forward:
  assumes "forward controls" and "\<not> backward controls" and "\<not> left controls" and "\<not> right controls"
    and "\<not> active joystick" and "\<not> run controls" and "velocity u = Vector3 0 a w"
  shows "velocity (handleMovementInput controls joystick 0 u) = Vector3 0 a (0.85 * w - 0.9)"
  using assms(6,7)
  by (simp add: handleMovementInput_def Let_def forward_only_intent [OF assms(1-5)] moveDir_forward lerp_def)

lemma update_walk_step:
  assumes "mixer u" and "isGrounded u" and "velocity u = Vector3 0 0 w"
    and "forward controls" and "\<not> backward controls" and "\<not> left controls" and "\<not> right controls"
    and "\<not> active joystick" and "\<not> run controls" and "\<not> jump controls"
  shows "velocity (update delta controls joystick 0 testAnimation u) = Vector3 0 0 (0.85 * w - 0.9)
     \<and> position (update delta controls joystick 0 testAnimation u)
           = add3 (position u) (Vector3 0 0 ((0.85 * w - 0.9) * delta))
     \<and> isGrounded (update delta controls joystick 0 testAnimation u)
     \<and> mixer (update delta controls joystick 0 testAnimation u)
     \<and> actions (update delta controls joystick 0 testAnimation u) = actions u"
proof -
  define u1 where "u1 = handleMovementInput controls joystick 0 u"
  define u2 where "u2 = gravityAndJumping delta controls u1"
  have v1: "velocity u1 = Vector3 0 0 (0.85 * w - 0.9)"
    unfolding u1_def by (rule handleMovementInput_forward [OF assms(4-9) assms(3)])
  have g1: "isGrounded u1"
    using assms(2) by (simp add: u1_def handleMovementInput_keeps)
  have "vec_x (velocity u2) = 0 \<and> vec_y (velocity u2) = 0 \<and> vec_z (velocity u2) = 0.85 * w - 0.9"
    using gravityAndJumping_grounded [OF g1, of delta controls] assms(10) v1
    by (simp add: u2_def gravityAndJumping_keeps)
  then have v2: "velocity u2 = Vector3 0 0 (0.85 * w - 0.9)"
    by (cases "velocity u2") simp
  have g2: "isGrounded u2"
    using gravityAndJumping_grounded [OF g1, of delta controls] assms(10) by (simp add: u2_def)
  have k2: "position u2 = position u \<and> mixer u2 = mixer u \<and> actions u2 = actions u"
    by (simp add: u2_def u1_def gravityAndJumping_keeps handleMovementInput_keeps)
  have "update delta controls joystick 0 testAnimation u = animations testAnimation (applyVelocity delta u2)"
    using assms(1) by (simp add: update_def u2_def u1_def)
  then show ?thesis
    using v2 g2 k2 assms(1)
    by (simp add: animations_keeps applyVelocity_keeps applyVelocity_position multiplyScalar_def)
qed

lemma update_walk_action:
  assumes "mixer u"
  shows "currentAction (update delta controls joystick cameraTheta None u)
       = (if nextAnimation (isGrounded (update delta controls joystick cameraTheta None u))
                 (horizontalSpeed (update delta controls joystick cameraTheta None u)) \<in> actions u
          then nextAnimation (isGrounded (update delta controls joystick cameraTheta None u))
                 (horizontalSpeed (update delta controls joystick cameraTheta None u))
          else currentAction u)"
proof -
  define u3 where "u3 = applyVelocity delta
      (gravityAndJumping delta controls (handleMovementInput controls joystick cameraTheta u))"
  have upd: "update delta controls joystick cameraTheta None u = animations None u3"
    using assms by (simp add: update_def u3_def)
  have keep: "actions u3 = actions u \<and> currentAction u3 = currentAction u"
    by (simp add: u3_def applyVelocity_keeps gravityAndJumping_keeps handleMovementInput_keeps)
  have same: "isGrounded (animations None u3) = isGrounded u3
      \<and> horizontalSpeed (animations None u3) = horizontalSpeed u3"
    by (simp add: horizontalSpeed_def animations_keeps)
  have "currentAction (animations None u3)
      = (if nextAnimation (isGrounded u3) (horizontalSpeed u3) \<in> actions u3
         then nextAnimation (isGrounded u3) (horizontalSpeed u3) else currentAction u3)"
    by (simp add: animations_def activeAction_def Let_def)
  then show ?thesis
    unfolding upd using keep same by simp
qed

lemma collideObstacle_far:
  "\<not> intersectsSphere box (position u) height \<Longrightarrow> collideObstacle u box = u"
  by (simp add: collideObstacle_def)

lemma collideObstacles_far:
  "\<forall>box \<in> set obs. \<not> intersectsSphere box (position u) height \<Longrightarrow> collideObstacles u obs = u"
  by (induction obs arbitrary: u) (simp_all add: collideObstacle_far)

lemma checkCollisions_on_floor_clear:
  assumes "position u = Vector3 0 0 z" and "isGrounded u"
    and "\<forall>box \<in> set obs. \<not> intersectsSphere box (Vector3 0 0 z) height"
  shows "fst (checkCollisions u obs) = u"
proof -
  have "fst (collideFloor u) = u"
    using assms(1,2) by (simp add: collideFloor_def Let_def)
  then show ?thesis
    using assms(1,3) by (simp add: checkCollisions_def collideObstacles_far)
qed

lemma flatGround_clear:
  "flatGround obs \<Longrightarrow> - 6 \<le> z \<Longrightarrow> z \<le> 0 \<Longrightarrow>
     \<forall>box \<in> set obs. \<not> intersectsSphere box (Vector3 0 0 z) height"
  by (simp add: flatGround_def)

lemma simulate_Suc:
  "simulate (Suc n) delta controls joystick cameraTheta testAnimation obstacles u
     = tick delta controls joystick cameraTheta testAnimation obstacles
         (simulate n delta controls joystick cameraTheta testAnimation obstacles u)"
  by (simp add: simulate_def)

lemma simulate_0: "simulate 0 delta controls joystick cameraTheta testAnimation obstacles u = u"
  by (simp add: simulate_def)

lemma walk_z_lower:
  fixes z e :: real
  assumes "- 0.096 * real n \<le> z" and "- 6 < e"
  shows "- 0.096 * real (Suc n) \<le> z + e * 0.016"
proof -
  have "- 0.096 * real (Suc n) = - 0.096 * real n - 0.096"
    by (simp add: algebra_simps)
  moreover have "- 0.096 \<le> e * 0.016"
    using assms(2) by simp
  ultimately show ?thesis
    using assms(1) by linarith
qed

lemma walk_z_upper:
  fixes z e :: real
  assumes "z \<le> 0" and "e < 0"
  shows "z + e * 0.016 \<le> 0"
proof -
  have "e * 0.016 \<le> 0"
    using assms(2) by (simp add: mult_le_0_iff)
  then show ?thesis
    using assms(1) by linarith
qed

lemma walk_invariant:
  assumes "mixer u" and "position u = Vector3 0 0 0" and "velocity u = Vector3 0 0 0" and "isGrounded u"
    and "forward controls" and "\<not> backward controls" and "\<not> left controls" and "\<not> right controls"
    and "\<not> active joystick" and "\<not> run controls" and "\<not> jump controls"
    and "flatGround obstacles"
  shows "n \<le> 60 \<Longrightarrow>
     mixer (simulate n 0.016 controls joystick 0 testAnimation obstacles u)
     \<and> isGrounded (simulate n 0.016 controls joystick 0 testAnimation obstacles u)
     \<and> velocity (simulate n 0.016 controls joystick 0 testAnimation obstacles u)
         = Vector3 0 0 (- 6 * (1 - 0.85 ^ n))
     \<and> vec_x (position (simulate n 0.016 controls joystick 0 testAnimation obstacles u)) = 0
     \<and> vec_y (position (simulate n 0.016 controls joystick 0 testAnimation obstacles u)) = 0
     \<and> - 0.096 * real n \<le> vec_z (position (simulate n 0.016 controls joystick 0 testAnimation obstacles u))
     \<and> vec_z (position (simulate n 0.016 controls joystick 0 testAnimation obstacles u)) \<le> 0
     \<and> actions (simulate n 0.016 controls joystick 0 testAnimation obstacles u) = actions u"
proof (induction n)
  case 0
  show ?case using assms(1-4) by (simp add: simulate_0)
next
  case (Suc n)
  define s where "s = simulate n 0.016 controls joystick 0 testAnimation obstacles u"
  define w where "w = - 6 * (1 - (0.85::real) ^ n)"
  define s' where "s' = update 0.016 controls joystick 0 testAnimation s"
  have ih: "mixer s" "isGrounded s" "velocity s = Vector3 0 0 w" "vec_x (position s) = 0"
    "vec_y (position s) = 0" "- 0.096 * real n \<le> vec_z (position s)" "vec_z (position s) \<le> 0"
    "actions s = actions u"
    using Suc by (simp_all add: s_def w_def)
  define q where "q = (0.85::real) ^ n"
  have pw: "0 < q" "q \<le> 1"
    by (simp_all add: q_def power_le_one)
  have wq: "0.85 * w - 0.9 = - 6 + 5.1 * q"
    by (simp add: w_def q_def algebra_simps)
  have wb: "- 6 < 0.85 * w - 0.9" "0.85 * w - 0.9 < 0"
    unfolding wq using pw by linarith+
  have wn: "0.85 * w - 0.9 = - 6 * (1 - 0.85 ^ Suc n)"
    by (simp add: w_def algebra_simps)
  note step = update_walk_step [OF ih(1-3) assms(5-11), of "0.016" testAnimation, folded s'_def]
  have pos': "position s' = Vector3 0 0 (vec_z (position s) + (0.85 * w - 0.9) * 0.016)"
    using step ih(4,5) by (simp add: add3_def)
  have zlo: "- 0.096 * real (Suc n) \<le> vec_z (position s) + (0.85 * w - 0.9) * 0.016"
    using ih(6) wb(1) by (rule walk_z_lower)
  have zhi: "vec_z (position s) + (0.85 * w - 0.9) * 0.016 \<le> 0"
    using ih(7) wb(2) by (rule walk_z_upper)
  have "- 6 \<le> - 0.096 * real (Suc n)"
    using Suc.prems by simp
  then have zl6: "- 6 \<le> vec_z (position s) + (0.85 * w - 0.9) * 0.016"
    using zlo by (rule order_trans)
  have clear: "\<forall>box \<in> set obstacles.
      \<not> intersectsSphere box (Vector3 0 0 (vec_z (position s) + (0.85 * w - 0.9) * 0.016)) height"
    using assms(12) zl6 zhi by (rule flatGround_clear)
  have "fst (checkCollisions s' obstacles) = s'"
    using pos' step clear by (intro checkCollisions_on_floor_clear) simp_all
  then have next_state: "simulate (Suc n) 0.016 controls joystick 0 testAnimation obstacles u = s'"
    by (simp add: simulate_Suc tick_def s_def s'_def)
  have v': "velocity s' = Vector3 0 0 (- 6 * (1 - 0.85 ^ Suc n))"
    using step by (simp only: wn)
  have px: "vec_x (position s') = 0" and py: "vec_y (position s') = 0"
    and pz: "vec_z (position s') = vec_z (position s) + (0.85 * w - 0.9) * 0.016"
    by (simp_all only: pos' Vector3.sel)
  have a': "actions s' = actions u"
    using step ih(8) by simp
  show ?case
    unfolding next_state pz px py
    using step v' zlo zhi a' by blast
qed


lemma checkCollisions_currentAction:
  "currentAction (fst (checkCollisions u obs)) = currentAction u"
proof -
  have one: "\<And>v box. currentAction (collideObstacle v box) = currentAction v"
    by (simp add: collideObstacle_def Let_def)
  have many: "\<And>v. currentAction (collideObstacles v obs) = currentAction v"
    by (induction obs) (simp_all add: one)
  show ?thesis
    by (simp add: checkCollisions_def many collideFloor_def Let_def)
qed

lemma length2_axis: "length2 0 v = \<bar>v\<bar>"
  by (simp add: length2_def)

lemma walking_speed_bounds:
  fixes q :: real
  assumes "0 < q" and "q \<le> 0.85"
  shows "0.5 < 6 * (1 - q) \<and> 6 * (1 - q) < 6"
  using assms by simp

lemma nextAnimation_walking:
  "0.5 < v \<Longrightarrow> v < 6 \<Longrightarrow> nextAnimation True v = ''Walking''"
  by (simp add: nextAnimation_def)

lemma power_85_60: "(0.85::real) ^ 60 \<le> 0.05"
proof -
  have "((17::real) / 20) ^ 60 \<le> 1 / 20"
    by (simp add: power_divide)
  then show ?thesis by simp
qed

lemma square_far:
  fixes a c :: real
  assumes "c \<le> a" and "0 \<le> c"
  shows "c * c \<le> a * a"
  using assms by (intro mult_mono) simp_all

lemma beyond_reach:
  assumes "distanceToSquared (clampPoint box p) p = a + t" and "64 / 25 < a" and "0 \<le> t"
  shows "\<not> intersectsSphere box p height"
proof -
  have "height * height = 64 / 25"
    by (simp add: height_def)
  then have "height * height < a + t"
    using assms(2,3) by linarith
  then show ?thesis
    by (simp add: intersectsSphere_def assms(1))
qed

lemma flatGround_sceneObstacles: "flatGround sceneObstacles"
proof -
  have far: "\<not> intersectsSphere box (Vector3 0 0 z) height"
    if "box \<in> set sceneObstacles" "- 6 \<le> z" "z \<le> 0" for box z
  proof -
    note given = that
    have "13 * 13 \<le> (19 + z) * (19 + z)"
      using given(2) by (intro square_far) simp_all
    then have sq3: "0 \<le> (- 19 - z) * (- 19 - z) - 169"
      by (simp add: algebra_simps)
    consider "box = createObstacle (Vector3 10 0 10) (Vector3 4 8 4)"
      | "box = createObstacle (Vector3 (- 15) 0 5) (Vector3 6 4 6)"
      | "box = createObstacle (Vector3 5 0 (- 20)) (Vector3 10 2 2)"
      using given(1) by (auto simp add: sceneObstacles_def)
    then show ?thesis
    proof cases
      case 1
      have "distanceToSquared (clampPoint box (Vector3 0 0 z)) (Vector3 0 0 z) = 64 + (8 - z) * (8 - z)"
        using given(3) by (simp add: 1 createObstacle_def clampPoint_def clamp_def distanceToSquared_def)
      then show ?thesis
        by (rule beyond_reach) simp_all
    next
      case 2
      have "distanceToSquared (clampPoint box (Vector3 0 0 z)) (Vector3 0 0 z) = 144 + (2 - z) * (2 - z)"
        using given(3) by (simp add: 2 createObstacle_def clampPoint_def clamp_def distanceToSquared_def)
      then show ?thesis
        by (rule beyond_reach) simp_all
    next
      case 3
      have "distanceToSquared (clampPoint box (Vector3 0 0 z)) (Vector3 0 0 z)
          = 169 + ((- 19 - z) * (- 19 - z) - 169)"
        using given(2) by (simp add: 3 createObstacle_def clampPoint_def clamp_def distanceToSquared_def)
      then show ?thesis
        using _ sq3 by (rule beyond_reach) simp
    qed
  qed
  then show ?thesis
    unfolding flatGround_def by blast
qed

lemma simulate_fixed:
  assumes "tick delta controls joystick cameraTheta testAnimation obstacles u = u"
  shows "simulate n delta controls joystick cameraTheta testAnimation obstacles u = u"
  by (induction n) (simp_all add: simulate_0 simulate_Suc assms)

lemma walk_speed_facts:
  assumes loaded: "mixer u" and origin: "position u = Vector3 0 0 0"
    and rest: "velocity u = Vector3 0 0 0" and grounded: "isGrounded u"
    and keys: "forward controls" "\<not> backward controls" "\<not> left controls" "\<not> right controls"
    and stick: "\<not> active joystick"
    and pace: "\<not> run controls" and nojump: "\<not> jump controls"
    and ground: "flatGround obstacles"
  shows "(\<forall>n \<le> 60. horizontalSpeed (simulate n 0.016 controls joystick 0 testAnimation obstacles u)
                     = 6 * (1 - 0.85 ^ n))
       \<and> (\<forall>n < 60. horizontalSpeed (simulate n 0.016 controls joystick 0 testAnimation obstacles u)
                     < horizontalSpeed (simulate (Suc n) 0.016 controls joystick 0 testAnimation obstacles u))
       \<and> (\<forall>n \<le> 60. horizontalSpeed (simulate n 0.016 controls joystick 0 testAnimation obstacles u) < 6)
       \<and> 0.95 * 6 \<le> horizontalSpeed (simulate 60 0.016 controls joystick 0 testAnimation obstacles u)
       \<and> (\<forall>n. 1 \<le> n \<and> n \<le> 60 \<longrightarrow>
              nextAnimation (isGrounded (simulate n 0.016 controls joystick 0 testAnimation obstacles u))
                (horizontalSpeed (simulate n 0.016 controls joystick 0 testAnimation obstacles u)) = ''Walking'')
       \<and> (\<forall>n \<le> 60.
              nextAnimation (isGrounded (simulate n 0.016 controls joystick 0 testAnimation obstacles u))
                (horizontalSpeed (simulate n 0.016 controls joystick 0 testAnimation obstacles u)) \<noteq> ''Running'')"
proof -
  define S where "S n = simulate n 0.016 controls joystick 0 testAnimation obstacles u" for n
  note inv = walk_invariant [OF loaded origin rest grounded keys stick pace nojump ground,
      of _ testAnimation, folded S_def]
  have pw: "0 < (0.85::real) ^ n \<and> (0.85::real) ^ n \<le> 1" for n
    by (simp add: power_le_one)
  have speed: "horizontalSpeed (S n) = 6 * (1 - 0.85 ^ n)" if "n \<le> 60" for n
  proof -
    have "horizontalSpeed (S n) = \<bar>- 6 * (1 - (0.85::real) ^ n)\<bar>"
      using inv [OF that] by (simp add: horizontalSpeed_def length2_axis)
    also have "\<dots> = 6 * (1 - 0.85 ^ n)"
      using pw [of n] by (simp add: abs_mult)
    finally show ?thesis .
  qed
  have below: "horizontalSpeed (S n) < 6" if "n \<le> 60" for n
    using pw [of n] by (simp add: speed [OF that])
  have grows: "horizontalSpeed (S n) < horizontalSpeed (S (Suc n))" if "n < 60" for n
  proof -
    have "(0.85::real) ^ Suc n < 0.85 ^ n"
      using pw [of n] by simp
    then show ?thesis
      using that by (simp add: speed)
  qed
  have near: "0.95 * 6 \<le> horizontalSpeed (S 60)"
    using power_85_60 by (simp add: speed)
  have later: "0.5 < horizontalSpeed (S n)" if "1 \<le> n" "n \<le> 60" for n
  proof -
    note range = that
    obtain k where k: "n = Suc k"
      using range(1) by (cases n) simp_all
    have "(0.85::real) ^ n \<le> 0.85"
      unfolding k using pw [of k] by simp
    then show ?thesis
      using walking_speed_bounds [of "0.85 ^ n"] pw [of n] by (simp add: speed [OF range(2)])
  qed
  have walking: "nextAnimation (isGrounded (S n)) (horizontalSpeed (S n)) = ''Walking''"
    if "1 \<le> n" "n \<le> 60" for n
    using inv [OF that(2)] later [OF that] below [OF that(2)] by (simp add: nextAnimation_walking)
  have never_running: "nextAnimation (isGrounded (S n)) (horizontalSpeed (S n)) \<noteq> ''Running''"
    if "n \<le> 60" for n
    using inv [OF that] below [OF that] by (simp add: nextAnimation_def)
  show ?thesis
    using speed grows below near walking never_running
    unfolding S_def by blast
qed

lemma walk_clip_facts:
  assumes loaded: "mixer u" and origin: "position u = Vector3 0 0 0"
    and rest: "velocity u = Vector3 0 0 0" and grounded: "isGrounded u"
    and keys: "forward controls" "\<not> backward controls" "\<not> left controls" "\<not> right controls"
    and stick: "\<not> active joystick"
    and pace: "\<not> run controls" and nojump: "\<not> jump controls"
    and ground: "flatGround obstacles"
  shows "(''Walking'' \<in> actions u \<longrightarrow>
            (\<forall>n. 1 \<le> n \<and> n \<le> 60 \<longrightarrow>
               currentAction (simulate n 0.016 controls joystick 0 None obstacles u) = ''Walking''))
       \<and> (currentAction u \<noteq> ''Running'' \<longrightarrow>
            (\<forall>n \<le> 60. currentAction (simulate n 0.016 controls joystick 0 None obstacles u) \<noteq> ''Running''))"
proof -
  define S where "S n = simulate n 0.016 controls joystick 0 None obstacles u" for n
  note inv = walk_invariant [OF loaded origin rest grounded keys stick pace nojump ground,
      of _ None, folded S_def]
  have walking: "nextAnimation (isGrounded (S n)) (horizontalSpeed (S n)) = ''Walking''"
    if "1 \<le> n" "n \<le> 60" for n
    using that walk_speed_facts [OF loaded origin rest grounded keys stick pace nojump ground, of None]
    unfolding S_def by blast
  have action_step: "currentAction (S (Suc n))
      = (if ''Walking'' \<in> actions u then ''Walking'' else currentAction (S n))" if "n < 60" for n
  proof -
    have n60: "n \<le> 60" and sn60: "Suc n \<le> 60" and sn1: "1 \<le> Suc n"
      using that by simp_all
    define s' where "s' = update 0.016 controls joystick 0 None (S n)"
    have m: "mixer (S n)" and g: "isGrounded (S n)"
      and v: "velocity (S n) = Vector3 0 0 (- 6 * (1 - 0.85 ^ n))" and a: "actions (S n) = actions u"
      using inv [OF n60] by simp_all
    note step = update_walk_step [OF m g v keys stick pace nojump, of "0.016" None, folded s'_def]
    have same: "S (Suc n) = fst (checkCollisions s' obstacles)"
      by (simp add: S_def s'_def simulate_Suc tick_def)
    have "velocity (S (Suc n)) = velocity s'"
      using inv [OF sn60] step by (simp add: algebra_simps)
    then have sp: "horizontalSpeed s' = horizontalSpeed (S (Suc n))"
      by (simp add: horizontalSpeed_def)
    have gr: "isGrounded s' = isGrounded (S (Suc n))"
      using inv [OF sn60] step by simp
    have "nextAnimation (isGrounded s') (horizontalSpeed s') = ''Walking''"
      unfolding sp gr by (rule walking [OF sn1 sn60])
    then have "currentAction s' = (if ''Walking'' \<in> actions u then ''Walking'' else currentAction (S n))"
      using update_walk_action [OF m, of "0.016" controls joystick 0, folded s'_def] a by simp
    then show ?thesis
      by (simp add: same checkCollisions_currentAction)
  qed
  have becomes: "currentAction (S n) = ''Walking''" if "''Walking'' \<in> actions u" "1 \<le> n" "n \<le> 60" for n
  proof -
    note range = that
    obtain k where k: "n = Suc k"
      using range(2) by (cases n) simp_all
    show ?thesis
      unfolding k using action_step [of k] range(1,3) k by simp
  qed
  have stays: "currentAction (S n) \<noteq> ''Running''" if "currentAction u \<noteq> ''Running''" "n \<le> 60" for n
    using that(2)
  proof (induction n)
    case 0
    show ?case using that(1) by (simp add: S_def simulate_0)
  next
    case (Suc n)
    then show ?case using action_step [of n] by simp
  qed
  show ?thesis
    using becomes stays unfolding S_def by blast
qed

text \<open>
  C7, as amended. A loaded unit at the origin, at rest and grounded; \<open>forward\<close> is the
  only control pressed (\<open>run\<close> and \<open>jump\<close> are off, the joystick is inactive), the
  camera angle is 0, the ground is flat, and every tick is \<open>update\<close> with
  \<open>delta = 0.016\<close> followed by \<open>checkCollisions\<close>. Then over the first 60 ticks,
  whatever the animation override is, the horizontal speed after tick \<open>n\<close> is
  \<open>6 (1 - 0.85\<^sup>n)\<close>: it grows with every tick, stays below 6.0 (so below the 7.0
  threshold of Running), and is within 5% of 6.0 after tick 60; from the first tick on
  the clip that the motion state asks for is Walking, never Running. With no override
  the current clip is Walking from the first tick on when the table has that clip, and
  is never Running unless it was so at the start.
\<close>

theorem forward_walk_reaches_walking_speed:
  assumes loaded: "mixer u" and origin: "position u = Vector3 0 0 0"
    and rest: "velocity u = Vector3 0 0 0" and grounded: "isGrounded u"
    and keys: "forward controls" "\<not> backward controls" "\<not> left controls" "\<not> right controls"
    and stick: "\<not> active joystick"
    and pace: "\<not> run controls" and nojump: "\<not> jump controls"
    and ground: "flatGround obstacles"
  shows "((\<forall>n \<le> 60. horizontalSpeed (simulate n 0.016 controls joystick 0 testAnimation obstacles u)
                     = 6 * (1 - 0.85 ^ n))
       \<and> (\<forall>n < 60. horizontalSpeed (simulate n 0.016 controls joystick 0 testAnimation obstacles u)
                     < horizontalSpeed (simulate (Suc n) 0.016 controls joystick 0 testAnimation obstacles u))
       \<and> (\<forall>n \<le> 60. horizontalSpeed (simulate n 0.016 controls joystick 0 testAnimation obstacles u) < 6)
       \<and> 0.95 * 6 \<le> horizontalSpeed (simulate 60 0.016 controls joystick 0 testAnimation obstacles u)
       \<and> (\<forall>n. 1 \<le> n \<and> n \<le> 60 \<longrightarrow>
              nextAnimation (isGrounded (simulate n 0.016 controls joystick 0 testAnimation obstacles u))
                (horizontalSpeed (simulate n 0.016 controls joystick 0 testAnimation obstacles u)) = ''Walking'')
       \<and> (\<forall>n \<le> 60.
              nextAnimation (isGrounded (simulate n 0.016 controls joystick 0 testAnimation obstacles u))
                (horizontalSpeed (simulate n 0.016 controls joystick 0 testAnimation obstacles u)) \<noteq> ''Running''))
       \<and> ((''Walking'' \<in> actions u \<longrightarrow>
            (\<forall>n. 1 \<le> n \<and> n \<le> 60 \<longrightarrow>
               currentAction (simulate n 0.016 controls joystick 0 None obstacles u) = ''Walking''))
       \<and> (currentAction u \<noteq> ''Running'' \<longrightarrow>
            (\<forall>n \<le> 60. currentAction (simulate n 0.016 controls joystick 0 None obstacles u) \<noteq> ''Running'')))"
  using walk_speed_facts [OF loaded origin rest grounded keys stick pace nojump ground, of testAnimation]
    walk_clip_facts [OF loaded origin rest grounded keys stick pace nojump ground]
  by (rule conjI)

theorem forward_walk_reaches_walking_speed_witness:
  "flatGround sceneObstacles
   \<and> horizontalSpeed (simulate 1 0.016 (initialControls\<lparr> forward := True \<rparr>) initialJoystick 0 None
        sceneObstacles
        ((load [''Idle'', ''Walking'', ''Running'', ''Jump''] (newUnit (Vector3 0 0 0)))\<lparr> isGrounded := True \<rparr>))
       = 0.9
   \<and> horizontalSpeed (simulate 60 0.016 (initialControls\<lparr> forward := True \<rparr>) initialJoystick 0 None
        sceneObstacles
        ((load [''Idle'', ''Walking'', ''Running'', ''Jump''] (newUnit (Vector3 0 0 0)))\<lparr> isGrounded := True \<rparr>))
       < 6
   \<and> 0.95 * 6 \<le> horizontalSpeed (simulate 60 0.016 (initialControls\<lparr> forward := True \<rparr>) initialJoystick 0 None
        sceneObstacles
        ((load [''Idle'', ''Walking'', ''Running'', ''Jump''] (newUnit (Vector3 0 0 0)))\<lparr> isGrounded := True \<rparr>))
   \<and> currentAction (simulate 1 0.016 (initialControls\<lparr> forward := True \<rparr>) initialJoystick 0 None
        sceneObstacles
        ((load [''Idle'', ''Walking'', ''Running'', ''Jump''] (newUnit (Vector3 0 0 0)))\<lparr> isGrounded := True \<rparr>))
       = ''Walking''
   \<and> currentAction (simulate 60 0.016 (initialControls\<lparr> forward := True \<rparr>) initialJoystick 0 None
        sceneObstacles
        ((load [''Idle'', ''Walking'', ''Running'', ''Jump''] (newUnit (Vector3 0 0 0)))\<lparr> isGrounded := True \<rparr>))
       = ''Walking''"
proof -
  define u where
    "u = (load [''Idle'', ''Walking'', ''Running'', ''Jump''] (newUnit (Vector3 0 0 0)))\<lparr> isGrounded := True \<rparr>"
  define c where "c = initialControls\<lparr> forward := True \<rparr>"
  have start: "mixer u" "position u = Vector3 0 0 0" "velocity u = Vector3 0 0 0" "isGrounded u"
    by (simp_all add: u_def load_def newUnit_def zero3_def)
  have keys: "forward c" "\<not> backward c" "\<not> left c" "\<not> right c"
    and stick: "\<not> active initialJoystick" and pace: "\<not> run c" and nojump: "\<not> jump c"
    by (simp_all add: c_def initialControls_def initialJoystick_def)
  have table: "''Walking'' \<in> actions u"
    by (simp add: u_def load_def newUnit_def)
  note walk = forward_walk_reaches_walking_speed
    [OF start keys stick pace nojump flatGround_sceneObstacles]
  have s1: "horizontalSpeed (simulate 1 0.016 c initialJoystick 0 None sceneObstacles u) = 0.9"
    using walk by simp
  have s60: "horizontalSpeed (simulate 60 0.016 c initialJoystick 0 None sceneObstacles u) < 6"
    using walk by simp
  have n60: "0.95 * 6 \<le> horizontalSpeed (simulate 60 0.016 c initialJoystick 0 None sceneObstacles u)"
    using walk by blast
  have a1: "currentAction (simulate 1 0.016 c initialJoystick 0 None sceneObstacles u) = ''Walking''"
    using walk table by simp
  have a60: "currentAction (simulate 60 0.016 c initialJoystick 0 None sceneObstacles u) = ''Walking''"
    using walk table by simp
  show ?thesis
    using flatGround_sceneObstacles s1 s60 n60 a1 a60 unfolding u_def c_def by blast
qed

text \<open>
  Before the load nothing moves. The unit of the scene while its asset is loading is at
  the origin, at rest and grounded, and not loaded: with \<open>forward\<close> pressed, after 60
  ticks its horizontal speed is 0 and its clip is still Idle.
\<close>

theorem forward_walk_before_load_counterexample:
  "position ((newUnit (Vector3 0 0 0))\<lparr> isGrounded := True \<rparr>) = Vector3 0 0 0
   \<and> velocity ((newUnit (Vector3 0 0 0))\<lparr> isGrounded := True \<rparr>) = Vector3 0 0 0
   \<and> isGrounded ((newUnit (Vector3 0 0 0))\<lparr> isGrounded := True \<rparr>)
   \<and> forward (initialControls\<lparr> forward := True \<rparr>)
   \<and> horizontalSpeed (simulate 60 0.016 (initialControls\<lparr> forward := True \<rparr>) initialJoystick 0 None
        sceneObstacles ((newUnit (Vector3 0 0 0))\<lparr> isGrounded := True \<rparr>)) = 0
   \<and> currentAction (simulate 60 0.016 (initialControls\<lparr> forward := True \<rparr>) initialJoystick 0 None
        sceneObstacles ((newUnit (Vector3 0 0 0))\<lparr> isGrounded := True \<rparr>)) = ''Idle''"
proof -
  define u where "u = (newUnit (Vector3 0 0 0))\<lparr> isGrounded := True \<rparr>"
  define c where "c = initialControls\<lparr> forward := True \<rparr>"
  have start: "position u = Vector3 0 0 0" "velocity u = Vector3 0 0 0" "isGrounded u" "\<not> mixer u"
    "currentAction u = ''Idle''"
    by (simp_all add: u_def newUnit_def zero3_def)
  have idle: "update 0.016 c initialJoystick 0 None u = u"
    using start(4) by (simp add: update_def)
  have "\<forall>box \<in> set sceneObstacles. \<not> intersectsSphere box (Vector3 0 0 0) height"
    using flatGround_sceneObstacles by (intro flatGround_clear) simp_all
  then have "fst (checkCollisions u sceneObstacles) = u"
    using start(1,3) by (intro checkCollisions_on_floor_clear) simp_all
  then have "tick 0.016 c initialJoystick 0 None sceneObstacles u = u"
    unfolding tick_def idle .
  then have still: "simulate 60 0.016 c initialJoystick 0 None sceneObstacles u = u"
    by (rule simulate_fixed)
  have speed: "horizontalSpeed (simulate 60 0.016 c initialJoystick 0 None sceneObstacles u) = 0"
    unfolding still by (simp add: horizontalSpeed_def start(2) length2_def)
  have clip: "currentAction (simulate 60 0.016 c initialJoystick 0 None sceneObstacles u) = ''Idle''"
    unfolding still by (rule start(5))
  have key: "forward c"
    by (simp add: c_def)
  show ?thesis
    using start(1-3) key speed clip unfolding u_def c_def by blast
qed


section \<open>The capsule\<close>

lemma collideObstacle_capsule:
  "capsule_start (collideObstacle u box) = capsule_start u
   \<and> capsule_end (collideObstacle u box) = capsule_end u"
  by (simp add: collideObstacle_def Let_def)

lemma collideObstacles_capsule:
  "capsule_start (collideObstacles u obs) = capsule_start u
   \<and> capsule_end (collideObstacles u obs) = capsule_end u"
  by (induction obs arbitrary: u) (simp_all add: collideObstacle_capsule)

lemma checkCollisions_capsule:
  "capsule_start (fst (checkCollisions u obs)) = capsule_start u
   \<and> capsule_end (fst (checkCollisions u obs)) = capsule_end u"
  by (simp add: checkCollisions_def collideObstacles_capsule collideFloor_def Let_def)

lemma update_capsule:
  assumes "mixer u"
  shows "capsule_start (update delta controls joystick cameraTheta testAnimation u)
           = add3 (Vector3 0 radius 0) (position (update delta controls joystick cameraTheta testAnimation u))
       \<and> capsule_end (update delta controls joystick cameraTheta testAnimation u)
           = add3 (Vector3 0 (height - radius) 0)
               (position (update delta controls joystick cameraTheta testAnimation u))"
  using assms by (simp add: update_def animations_keeps applyVelocity_capsule)

text \<open>
  C8, as amended. After every call of \<open>update\<close> on a loaded unit, \<open>capsule.start\<close> is
  \<open>position + (0, radius, 0)\<close> and \<open>capsule.end\<close> is \<open>position + (0, height - radius, 0)\<close>,
  for the position that \<open>update\<close> has just integrated. \<open>checkCollisions\<close> does not write
  the capsule: after a simulation tick the capsule is the one \<open>update\<close> left.
\<close>

theorem capsule_follows_integrated_position:
  assumes "mixer u"
  shows "capsule_start (update delta controls joystick cameraTheta testAnimation u)
           = add3 (position (update delta controls joystick cameraTheta testAnimation u)) (Vector3 0 radius 0)
       \<and> capsule_end (update delta controls joystick cameraTheta testAnimation u)
           = add3 (position (update delta controls joystick cameraTheta testAnimation u))
               (Vector3 0 (height - radius) 0)
       \<and> capsule_start (tick delta controls joystick cameraTheta testAnimation obstacles u)
           = capsule_start (update delta controls joystick cameraTheta testAnimation u)
       \<and> capsule_end (tick delta controls joystick cameraTheta testAnimation obstacles u)
           = capsule_end (update delta controls joystick cameraTheta testAnimation u)"
  using update_capsule [OF assms, of delta controls joystick cameraTheta testAnimation]
  by (simp add: tick_def checkCollisions_capsule add3_def)

lemma falling_update:
  "update 0.1 initialControls initialJoystick pi None
     ((load [''Idle'', ''Walking'', ''Running'', ''Jump''] (newUnit (Vector3 0 1 0)))
        \<lparr> velocity := Vector3 0 (- 10) 0 \<rparr>)
   = (load [''Idle'', ''Walking'', ''Running'', ''Jump''] (newUnit (Vector3 0 1 0)))
        \<lparr> velocity := Vector3 0 (- 13.2) 0, position := Vector3 0 (- 0.32) 0,
          capsule_start := Vector3 0 0.18 0, capsule_end := Vector3 0 0.78 0,
          currentAction := ''Jump'' \<rparr>"
  by (simp add: update_def animations_def applyVelocity_def gravityAndJumping_def
      handleMovementInput_def Let_def moveX_def moveZ_def inputMag_def length2_def
      initialControls_def initialJoystick_def load_def newUnit_def lerp_def add3_def
      multiplyScalar_def radius_def height_def nextAnimation_def activeAction_def horizontalSpeed_def)

lemma falling_tick_position:
  "position (tick 0.1 initialControls initialJoystick pi None sceneObstacles
     ((load [''Idle'', ''Walking'', ''Running'', ''Jump''] (newUnit (Vector3 0 1 0)))
        \<lparr> velocity := Vector3 0 (- 10) 0 \<rparr>)) = Vector3 0 0 0"
proof -
  have "\<forall>box \<in> set sceneObstacles. \<not> intersectsSphere box (Vector3 0 0 0) height"
    using flatGround_sceneObstacles by (intro flatGround_clear) simp_all
  then show ?thesis
    unfolding tick_def falling_update checkCollisions_def
    by (simp add: collideFloor_def Let_def collideObstacles_far)
qed

theorem capsule_follows_integrated_position_witness:
  "position (update 0.1 initialControls initialJoystick pi None
       ((load [''Idle'', ''Walking'', ''Running'', ''Jump''] (newUnit (Vector3 0 1 0)))
          \<lparr> velocity := Vector3 0 (- 10) 0 \<rparr>)) = Vector3 0 (- 0.32) 0
   \<and> capsule_start (update 0.1 initialControls initialJoystick pi None
       ((load [''Idle'', ''Walking'', ''Running'', ''Jump''] (newUnit (Vector3 0 1 0)))
          \<lparr> velocity := Vector3 0 (- 10) 0 \<rparr>)) = Vector3 0 0.18 0
   \<and> capsule_end (update 0.1 initialControls initialJoystick pi None
       ((load [''Idle'', ''Walking'', ''Running'', ''Jump''] (newUnit (Vector3 0 1 0)))
          \<lparr> velocity := Vector3 0 (- 10) 0 \<rparr>)) = Vector3 0 0.78 0
   \<and> capsule_start (tick 0.1 initialControls initialJoystick pi None sceneObstacles
       ((load [''Idle'', ''Walking'', ''Running'', ''Jump''] (newUnit (Vector3 0 1 0)))
          \<lparr> velocity := Vector3 0 (- 10) 0 \<rparr>)) = Vector3 0 0.18 0
   \<and> capsule_end (tick 0.1 initialControls initialJoystick pi None sceneObstacles
       ((load [''Idle'', ''Walking'', ''Running'', ''Jump''] (newUnit (Vector3 0 1 0)))
          \<lparr> velocity := Vector3 0 (- 10) 0 \<rparr>)) = Vector3 0 0.78 0"
proof -
  define u where "u = (load [''Idle'', ''Walking'', ''Running'', ''Jump''] (newUnit (Vector3 0 1 0)))
          \<lparr> velocity := Vector3 0 (- 10) 0 \<rparr>"
  have loaded: "mixer u"
    by (simp add: u_def load_def)
  have pos: "position (update 0.1 initialControls initialJoystick pi None u) = Vector3 0 (- 0.32) 0"
    unfolding u_def falling_update by simp
  note caps = capsule_follows_integrated_position
    [OF loaded, of "0.1" initialControls initialJoystick pi None sceneObstacles]
  show ?thesis
    using caps pos unfolding u_def by (simp add: add3_def radius_def height_def)
qed

text \<open>
  A landing: a loaded unit falling at 10 units per second from \<open>y = 1\<close>, one tick of 0.1
  seconds. \<open>update\<close> integrates the position to \<open>y = -0.32\<close> and sets the capsule from it;
  \<open>checkCollisions\<close> lifts the position to the floor and leaves the capsule: after the
  tick \<open>capsule.start\<close> is \<open>(0, 0.18, 0)\<close>, not \<open>position + (0, radius, 0)\<close>.
\<close>

theorem capsule_stale_after_landing_counterexample:
  "mixer ((load [''Idle'', ''Walking'', ''Running'', ''Jump''] (newUnit (Vector3 0 1 0)))
            \<lparr> velocity := Vector3 0 (- 10) 0 \<rparr>)
   \<and> position (tick 0.1 initialControls initialJoystick pi None sceneObstacles
       ((load [''Idle'', ''Walking'', ''Running'', ''Jump''] (newUnit (Vector3 0 1 0)))
          \<lparr> velocity := Vector3 0 (- 10) 0 \<rparr>)) = Vector3 0 0 0
   \<and> capsule_start (tick 0.1 initialControls initialJoystick pi None sceneObstacles
       ((load [''Idle'', ''Walking'', ''Running'', ''Jump''] (newUnit (Vector3 0 1 0)))
          \<lparr> velocity := Vector3 0 (- 10) 0 \<rparr>)) = Vector3 0 0.18 0
   \<and> capsule_start (tick 0.1 initialControls initialJoystick pi None sceneObstacles
       ((load [''Idle'', ''Walking'', ''Running'', ''Jump''] (newUnit (Vector3 0 1 0)))
          \<lparr> velocity := Vector3 0 (- 10) 0 \<rparr>))
     \<noteq> add3 (position (tick 0.1 initialControls initialJoystick pi None sceneObstacles
       ((load [''Idle'', ''Walking'', ''Running'', ''Jump''] (newUnit (Vector3 0 1 0)))
          \<lparr> velocity := Vector3 0 (- 10) 0 \<rparr>))) (Vector3 0 radius 0)"
proof -
  define u where "u = (load [''Idle'', ''Walking'', ''Running'', ''Jump''] (newUnit (Vector3 0 1 0)))
          \<lparr> velocity := Vector3 0 (- 10) 0 \<rparr>"
  have loaded: "mixer u"
    by (simp add: u_def load_def)
  have pos: "position (tick 0.1 initialControls initialJoystick pi None sceneObstacles u) = Vector3 0 0 0"
    unfolding u_def by (rule falling_tick_position)
  have cap: "capsule_start (tick 0.1 initialControls initialJoystick pi None sceneObstacles u)
      = Vector3 0 0.18 0"
    unfolding u_def tick_def falling_update by (simp add: checkCollisions_capsule)
  have stale: "capsule_start (tick 0.1 initialControls initialJoystick pi None sceneObstacles u)
      \<noteq> add3 (position (tick 0.1 initialControls initialJoystick pi None sceneObstacles u))
          (Vector3 0 radius 0)"
    unfolding cap pos by (simp add: add3_def radius_def)
  show ?thesis
    using loaded pos cap stale unfolding u_def by blast
qed


section \<open>The asset gate of \<open>update\<close>\<close>

text \<open>
  C10. Before the asset load has completed (the mixer is unset), a call of \<open>update\<close>
  returns the unit as it was, whatever the time step, the controls, the joystick,
  the camera angle and the animation override are: position, velocity, heading,
  \<open>isGrounded\<close>, \<open>currentAction\<close> and every other field are unchanged.
\<close>

theorem update_before_load_is_noop:
  assumes "\<not> mixer u"
  shows "update delta controls joystick cameraTheta testAnimation u = u"
  using assms by (simp add: update_def)

theorem update_before_load_is_noop_witness:
  "update 0.016 \<lparr> forward = True, backward = False, left = False, right = False,
                  jump = True, run = True, resetCamera = False \<rparr>
          \<lparr> joy_x = 1, joy_y = 0, active = True \<rparr> 0 (Some ''Dance'')
          (newUnit (Vector3 0 0 0)) = newUnit (Vector3 0 0 0)"
  using update_before_load_is_noop [of "newUnit (Vector3 0 0 0)"]
  by (simp add: newUnit_def)

end
